theory Spec2Isabelle
  imports Main "HOL-Library.Word"
begin

unbundle bit_operations_syntax

section \<open>Configuration macros and constants (libforth.c, sections 1 and 2)\<close>

text \<open>
  The cell type \<open>forth_cell_t\<close> is declared in libforth.h, which is not among the sources;
  it is an unsigned integer type, modelled as \<open>'a word\<close> for an arbitrary width.
  \<open>sizeof(forth_cell_t)\<close> is \<open>LENGTH('a) div 8\<close>, and \<open>size_t\<close>, \<open>long\<close> and
  \<open>forth_cell_t\<close> are taken to have the same width (as they have when the cell is
  \<open>uintptr_t\<close> on the usual data models), so mixed expressions are computed on \<open>'a word\<close>.
\<close>

abbreviation (input) BLOCK_SIZE :: nat where "BLOCK_SIZE \<equiv> 1024"
abbreviation (input) STRING_OFFSET :: nat where "STRING_OFFSET \<equiv> 32"
abbreviation (input) MAX_WORD_LENGTH :: nat where "MAX_WORD_LENGTH \<equiv> 32"
abbreviation (input) DICTIONARY_START :: nat where "DICTIONARY_START \<equiv> STRING_OFFSET + MAX_WORD_LENGTH"
abbreviation (input) WORD_LENGTH_OFFSET :: nat where "WORD_LENGTH_OFFSET \<equiv> 8"
abbreviation (input) CORE_VERSION :: nat where "CORE_VERSION \<equiv> 2"

definition WORD_LENGTH :: "'a::len word \<Rightarrow> 'a word" where
  "WORD_LENGTH field1 = drop_bit WORD_LENGTH_OFFSET field1 AND 0xff"

definition WORD_HIDDEN :: "'a::len word \<Rightarrow> 'a word" where
  "WORD_HIDDEN field1 = field1 AND 0x80"

definition INSTRUCTION_MASK :: "'a::len word" where
  "INSTRUCTION_MASK = 0x7f"

definition instruction :: "'a::len word \<Rightarrow> 'a word" where
  "instruction k = k AND INSTRUCTION_MASK"

text \<open>enum registers: indices into the memory of the virtual machine.\<close>

abbreviation (input) DIC :: nat where "DIC \<equiv> 6"
abbreviation (input) RSTK :: nat where "RSTK \<equiv> 7"
abbreviation (input) STATE :: nat where "STATE \<equiv> 8"
abbreviation (input) BASE :: nat where "BASE \<equiv> 9"
abbreviation (input) PWD :: nat where "PWD \<equiv> 10"
abbreviation (input) SOURCE_ID :: nat where "SOURCE_ID \<equiv> 11"
abbreviation (input) SIN :: nat where "SIN \<equiv> 12"
abbreviation (input) SIDX :: nat where "SIDX \<equiv> 13"
abbreviation (input) SLEN :: nat where "SLEN \<equiv> 14"
abbreviation (input) START_ADDR :: nat where "START_ADDR \<equiv> 15"
abbreviation (input) FIN :: nat where "FIN \<equiv> 16"
abbreviation (input) FOUT :: nat where "FOUT \<equiv> 17"
abbreviation (input) STDIN :: nat where "STDIN \<equiv> 18"
abbreviation (input) STDOUT :: nat where "STDOUT \<equiv> 19"
abbreviation (input) STDERR :: nat where "STDERR \<equiv> 20"
abbreviation (input) ARGC :: nat where "ARGC \<equiv> 21"
abbreviation (input) ARGV :: nat where "ARGV \<equiv> 22"
abbreviation (input) DEBUG :: nat where "DEBUG \<equiv> 23"
abbreviation (input) INVALID :: nat where "INVALID \<equiv> 24"
abbreviation (input) TOP :: nat where "TOP \<equiv> 25"
abbreviation (input) INSTRUCTION :: nat where "INSTRUCTION \<equiv> 26"
abbreviation (input) STACK_SIZE :: nat where "STACK_SIZE \<equiv> 27"
abbreviation (input) START_TIME :: nat where "START_TIME \<equiv> 28"

text \<open>enum instructions. The enumerators AND, OR and XOR carry a suffix, since the plain
  names are the bit operations of HOL; LAST, the end marker, is not an instruction.\<close>

datatype instructions =
    PUSH | COMPILE | RUN | DEFINE | IMMEDIATE | READ | LOAD | STORE
  | SUB | ADD | AND_I | OR_I | XOR_I | INV | SHL | SHR | MUL | DIV | LESS | MORE | EXIT
  | EMIT | KEY | FROMR | TOR | BRANCH | QBRANCH | PNUM | QUOTE | COMMA | EQUAL | SWAP
  | DUP | DROP | OVER | TAIL | BSAVE | BLOAD | FIND | PRINT | DEPTH | CLOCK

definition instruction_list :: "instructions list" where
  "instruction_list =
    [PUSH, COMPILE, RUN, DEFINE, IMMEDIATE, READ, LOAD, STORE,
     SUB, ADD, AND_I, OR_I, XOR_I, INV, SHL, SHR, MUL, DIV, LESS, MORE, EXIT,
     EMIT, KEY, FROMR, TOR, BRANCH, QBRANCH, PNUM, QUOTE, COMMA, EQUAL, SWAP,
     DUP, DROP, OVER, TAIL, BSAVE, BLOAD, FIND, PRINT, DEPTH, CLOCK]"

abbreviation (input) LAST :: nat where "LAST \<equiv> 42"

text \<open>The value of an enumerator, and the enumerator of a value below LAST.\<close>

fun opcode :: "instructions \<Rightarrow> nat" where
  "opcode PUSH = 0" | "opcode COMPILE = 1" | "opcode RUN = 2" | "opcode DEFINE = 3"
| "opcode IMMEDIATE = 4" | "opcode READ = 5" | "opcode LOAD = 6" | "opcode STORE = 7"
| "opcode SUB = 8" | "opcode ADD = 9" | "opcode AND_I = 10" | "opcode OR_I = 11"
| "opcode XOR_I = 12" | "opcode INV = 13" | "opcode SHL = 14" | "opcode SHR = 15"
| "opcode MUL = 16" | "opcode DIV = 17" | "opcode LESS = 18" | "opcode MORE = 19"
| "opcode EXIT = 20" | "opcode EMIT = 21" | "opcode KEY = 22" | "opcode FROMR = 23"
| "opcode TOR = 24" | "opcode BRANCH = 25" | "opcode QBRANCH = 26" | "opcode PNUM = 27"
| "opcode QUOTE = 28" | "opcode COMMA = 29" | "opcode EQUAL = 30" | "opcode SWAP = 31"
| "opcode DUP = 32" | "opcode DROP = 33" | "opcode OVER = 34" | "opcode TAIL = 35"
| "opcode BSAVE = 36" | "opcode BLOAD = 37" | "opcode FIND = 38" | "opcode PRINT = 39"
| "opcode DEPTH = 40" | "opcode CLOCK = 41"

definition decode :: "nat \<Rightarrow> instructions option" where
  "decode n = (if n < LAST then Some (instruction_list ! n) else None)"

section \<open>The interpreter object and its host\<close>

text \<open>
  The host the C library calls act on: the byte order, whether the plain \<open>char\<close> of the
  compiler is a signed type (as on x86-64), the streams behind the \<open>FILE*\<close>
  values stored in cells (the unread input of those open for reading, the output of those
  open for writing), the NUL-terminated strings behind \<open>char*\<close> values stored in cells,
  what has been written to the C stream stderr (one entry for each call), the block files
  by name, whether a block file can be opened for writing and how many bytes fwrite will
  manage, the value of \<open>clock()\<close>, the standard streams, and calloc (the address of the
  memory of a new object of so many cells, or None).
\<close>

record (overloaded) 'a host =
  big_endian :: bool
  char_signed :: bool
  readable :: "'a word \<Rightarrow> string option"
  writable :: "'a word \<Rightarrow> string option"
  strings :: "'a word \<Rightarrow> string option"
  stderr :: "string list"
  blocks :: "string \<Rightarrow> string option"
  block_write :: "string \<Rightarrow> nat option"
  clock :: "'a word"
  CLOCKS_PER_SEC :: "'a word"
  stdin_ptr :: "'a word"
  stdout_ptr :: "'a word"
  stderr_ptr :: "'a word"
  calloc :: "nat \<Rightarrow> 'a word option"

text \<open>
  \<open>struct forth\<close>: \<open>header\<close>, \<open>core_size\<close>, the stack pointer \<open>S\<close> and the memory \<open>m\<close>.
  \<open>S\<close> points into \<open>m\<close> and is kept as a cell offset from \<open>m\<close> (an integer, since the
  code moves it by pointer arithmetic without a check). The members \<open>s\<close>
  (always \<open>m + STRING_OFFSET\<close>), \<open>hex_fmt\<close> (a constant format) and \<open>on_error\<close> (the
  landing pad of longjmp) hold no state of their own. The object is kept together with
  the host it lives in.
\<close>

record (overloaded) 'a forth = "'a host" +
  header :: string
  core_size :: "'a word"
  S :: int
  m :: "'a word list"

text \<open>The results of a call: a value, a failed assertion (abort), or behaviour that C
  leaves undefined (an access outside an object, an invalid stream).\<close>

datatype 'x ret = Ret (ret_val: 'x) | Abort | Undefined

definition sizeof_cell :: "('a::len, 'z) forth_scheme \<Rightarrow> nat" where
  "sizeof_cell v = size (core_size v) div 8"

text \<open>An instance as malloc made it: \<open>core_size\<close> cells, enough for the registers.\<close>

definition allocated :: "('a::len, 'z) forth_scheme \<Rightarrow> bool" where
  "allocated v \<longleftrightarrow> length (m v) = unat (core_size v) \<and> START_TIME < length (m v)"

text \<open>The assignment \<open>m[i] = x\<close> at an index inside \<open>m\<close>.\<close>

definition put :: "nat \<Rightarrow> 'a::len word \<Rightarrow> ('a, 'z) forth_scheme \<Rightarrow> ('a, 'z) forth_scheme" where
  "put i x v = v\<lparr>m := list_update (m v) i x\<rparr>"

subsection \<open>Bytes of the memory\<close>

text \<open>Byte \<open>k\<close> of a cell in the byte order of the host, as a \<open>char*\<close> into \<open>m\<close> sees it.\<close>

definition lane :: "bool \<Rightarrow> 'a::len word \<Rightarrow> nat \<Rightarrow> nat" where
  "lane be c k = 8 * (if be then size c div 8 - 1 - k else k)"

definition cell_byte :: "bool \<Rightarrow> 'a::len word \<Rightarrow> nat \<Rightarrow> char" where
  "cell_byte be c k = char_of (drop_bit (lane be c k) (unat c))"

definition cell_set_byte :: "bool \<Rightarrow> 'a::len word \<Rightarrow> nat \<Rightarrow> char \<Rightarrow> 'a word" where
  "cell_set_byte be c k b =
     (c AND NOT (push_bit (lane be c k) 0xff)) OR push_bit (lane be c k) (of_nat (of_char b))"

definition get_byte :: "('a::len, 'z) forth_scheme \<Rightarrow> nat \<Rightarrow> char option" where
  "get_byte v a =
     (if a < length (m v) * sizeof_cell v
      then Some (cell_byte (big_endian v) (m v ! (a div sizeof_cell v)) (a mod sizeof_cell v))
      else None)"

definition set_byte ::
  "('a::len, 'z) forth_scheme \<Rightarrow> nat \<Rightarrow> char \<Rightarrow> ('a, 'z) forth_scheme option" where
  "set_byte v a b =
     (if a < length (m v) * sizeof_cell v
      then Some (put (a div sizeof_cell v)
                   (cell_set_byte (big_endian v) (m v ! (a div sizeof_cell v)) (a mod sizeof_cell v) b) v)
      else None)"

text \<open>A C string given as a list of characters ends at its first NUL, or at the end of
  the list, where the terminating NUL is.\<close>

definition c_str :: "string \<Rightarrow> string" where
  "c_str s = takeWhile (\<lambda>c. c \<noteq> CHR 0x00) s"

definition strlen :: "string \<Rightarrow> nat" where
  "strlen s = length (c_str s)"

fun write_bytes ::
  "('a::len, 'z) forth_scheme \<Rightarrow> nat \<Rightarrow> string \<Rightarrow> ('a, 'z) forth_scheme option" where
  "write_bytes v a [] = Some v"
| "write_bytes v a (c # cs) =
     (case set_byte v a c of None \<Rightarrow> None | Some v' \<Rightarrow> write_bytes v' (Suc a) cs)"

text \<open>strcpy to byte address \<open>a\<close> of \<open>m\<close>: the characters and the NUL.\<close>

definition strcpy ::
  "('a::len, 'z) forth_scheme \<Rightarrow> nat \<Rightarrow> string \<Rightarrow> ('a, 'z) forth_scheme option" where
  "strcpy v a s = write_bytes v a (c_str s @ [CHR 0x00])"

text \<open>The C string that starts at byte address \<open>a\<close> of \<open>m\<close>; None when it is not
  terminated inside \<open>m\<close>.\<close>

function string_at :: "('a::len, 'z) forth_scheme \<Rightarrow> nat \<Rightarrow> string option" where
  "string_at v a =
     (case get_byte v a of
        None \<Rightarrow> None
      | Some c \<Rightarrow> if c = CHR 0x00 then Some [] else map_option ((#) c) (string_at v (Suc a)))"
  by pat_completeness auto
termination
  by (relation "measure (\<lambda>(v, a). length (m v) * sizeof_cell v - a)")
     (auto simp: get_byte_def split: if_splits)

subsection \<open>Characters and formatted output\<close>

text \<open>tolower and isspace of the C library, in the C locale (the program never sets another).\<close>

definition tolower :: "char \<Rightarrow> char" where
  "tolower c = (if 65 \<le> (of_char c :: nat) \<and> (of_char c :: nat) \<le> 90
                then char_of ((of_char c :: nat) + 32) else c)"

definition isspace :: "char \<Rightarrow> bool" where
  "isspace c \<longleftrightarrow> (of_char c :: nat) = 32 \<or> (9 \<le> (of_char c :: nat) \<and> (of_char c :: nat) \<le> 13)"

definition digit_char :: "nat \<Rightarrow> char" where
  "digit_char d = ''0123456789abcdef'' ! d"

function show_base :: "nat \<Rightarrow> nat \<Rightarrow> string" where
  "show_base b n =
     (if b < 2 \<or> 16 < b \<or> n < b then [digit_char (n mod 16)]
      else show_base b (n div b) @ [digit_char (n mod b)])"
  by pat_completeness auto
termination
  by (relation "measure snd") auto

text \<open>printf conversions: \<open>%u\<close>, \<open>%x\<close> and \<open>%0kx\<close>.\<close>

definition fmt_u :: "nat \<Rightarrow> string" where
  "fmt_u n = show_base 10 n"

definition fmt_x :: "nat \<Rightarrow> string" where
  "fmt_x n = show_base 16 n"

definition fmt_0x :: "nat \<Rightarrow> nat \<Rightarrow> string" where
  "fmt_0x k n = replicate (k - length (fmt_x n)) CHR ''0'' @ fmt_x n"

abbreviation dq :: char where "dq \<equiv> CHR 0x22"
abbreviation sq :: char where "sq \<equiv> CHR 0x27"
abbreviation nl :: char where "nl \<equiv> CHR 0x0A"
abbreviation tab :: char where "tab \<equiv> CHR 0x09"

text \<open>The texts the program writes to stderr.\<close>

definition debug_msg :: "'a::len word \<Rightarrow> nat \<Rightarrow> string" where
  "debug_msg x line =
     [tab] @ ''( debug'' @ [tab] @ ''0x'' @ fmt_x (unat x) @ [tab] @ fmt_u line @ '' )'' @ [nl]"

definition bounds_msg :: "'a::len word \<Rightarrow> 'a word \<Rightarrow> string" where
  "bounds_msg x n =
     ''( fatal '' @ [dq] @ ''bounds check failed: '' @ fmt_u (unat x) @ '' >= '' @ fmt_u (unat n)
       @ [dq] @ '' )'' @ [nl]"

definition illegal_op_msg :: "'a::len word \<Rightarrow> string" where
  "illegal_op_msg w = ''( fatal '' @ [sq] @ ''illegal-op '' @ fmt_u (unat w) @ '' )'' @ [nl]"

definition not_a_word_msg :: "string \<Rightarrow> string" where
  "not_a_word_msg tok = ''( error '' @ [dq] @ tok @ '' is not a word'' @ [dq] @ '' )'' @ [nl]"

definition div_zero_msg :: "string" where
  "div_zero_msg = ''( error '' @ [dq] @ ''x/0'' @ [dq] @ '' )'' @ [nl]"

definition file_open_msg :: "string \<Rightarrow> string" where
  "file_open_msg name =
     ''( error '' @ [sq] @ ''file-open '' @ [dq] @ name @ '' : could not open file'' @ [dq]
       @ '' )'' @ [nl]"

definition to_stderr :: "string \<Rightarrow> ('a::len, 'z) forth_scheme \<Rightarrow> ('a, 'z) forth_scheme" where
  "to_stderr msg v = v\<lparr>stderr := stderr v @ [msg]\<rparr>"

section \<open>Helping functions for the compiler (libforth.c, section 3)\<close>

abbreviation (input) EOF :: int where "EOF \<equiv> - 1"
abbreviation (input) FILE_IN :: "'a::len word" where "FILE_IN \<equiv> 0"
abbreviation (input) STRING_IN :: "'a::len word" where "STRING_IN \<equiv> - 1"

text \<open>The conversion of a plain \<open>char\<close> to int: a byte from 128 on is negative where
  \<open>char\<close> is a signed type.\<close>

definition int_of_char :: "bool \<Rightarrow> char \<Rightarrow> int" where
  "int_of_char sg c =
     (if sg \<and> 128 \<le> (of_char c :: nat) then int (of_char c) - 256 else int (of_char c))"

text \<open>
  forth_get_char. fgetc gives the byte as an unsigned char converted to int. In string
  mode the character comes from the host string behind \<open>m[SIN]\<close>, whose terminating NUL
  is readable too, and is returned as the plain \<open>char\<close> it is: the byte 0xFF of a string
  gives EOF where \<open>char\<close> is signed.
\<close>

definition forth_get_char ::
  "('a::len, 'z) forth_scheme \<Rightarrow> (int \<times> ('a, 'z) forth_scheme) ret" where
  "forth_get_char v =
     (if m v ! SOURCE_ID = FILE_IN then
        (case readable v (m v ! FIN) of
           None \<Rightarrow> Undefined
         | Some [] \<Rightarrow> Ret (EOF, v)
         | Some (c # cs) \<Rightarrow> Ret (int (of_char c), v\<lparr>readable := (readable v)(m v ! FIN \<mapsto> cs)\<rparr>))
      else if m v ! SOURCE_ID = STRING_IN then
        (if m v ! SIDX \<ge> m v ! SLEN then Ret (EOF, v)
         else case strings v (m v ! SIN) of
           None \<Rightarrow> Undefined
         | Some str \<Rightarrow>
             if unat (m v ! SIDX) > strlen str then Undefined
             else Ret (int_of_char (char_signed v) ((c_str str @ [CHR 0x00]) ! unat (m v ! SIDX)),
                       put SIDX (m v ! SIDX + 1) v))
      else Ret (EOF, v))"

text \<open>
  The conversion \<open>%31s\<close> of scanf: white space is skipped, then up to 31 characters that
  are not white space are taken. The result is the token and the rest of the input, or
  None when the input ends before a token starts.
\<close>

definition scan_word :: "string \<Rightarrow> (string \<times> string) option" where
  "scan_word inp =
     (let r = dropWhile isspace inp in
      if r = [] then None
      else let tok = take (MAX_WORD_LENGTH - 1) (takeWhile (\<lambda>c. \<not> isspace c) r)
           in Some (tok, drop (length tok) r))"

text \<open>
  forth_get_word, always called with \<open>p = o->s\<close>, the buffer at cell STRING_OFFSET of
  \<open>m\<close>: the token and its NUL are stored there. The result is that of fscanf (1 or EOF)
  for a file, and the number of characters consumed (or EOF) for a string.
\<close>

definition forth_get_word ::
  "('a::len, 'z) forth_scheme \<Rightarrow> (int \<times> ('a, 'z) forth_scheme) ret" where
  "forth_get_word v =
     (if m v ! SOURCE_ID = FILE_IN then
        (case readable v (m v ! FIN) of
           None \<Rightarrow> Undefined
         | Some inp \<Rightarrow>
            (case scan_word inp of
               None \<Rightarrow> Ret (EOF, v\<lparr>readable := (readable v)(m v ! FIN \<mapsto> [])\<rparr>)
             | Some (tok, rest) \<Rightarrow>
                (case write_bytes v (STRING_OFFSET * sizeof_cell v) (tok @ [CHR 0x00]) of
                   None \<Rightarrow> Undefined
                 | Some v' \<Rightarrow> Ret (1, v'\<lparr>readable := (readable v')(m v ! FIN \<mapsto> rest)\<rparr>))))
      else if m v ! SOURCE_ID = STRING_IN then
        (case strings v (m v ! SIN) of
           None \<Rightarrow> Undefined
         | Some str \<Rightarrow>
             if unat (m v ! SIDX) > strlen str then Undefined
             else
              (case scan_word (drop (unat (m v ! SIDX)) (c_str str)) of
                 None \<Rightarrow> Ret (EOF, v)
               | Some (tok, rest) \<Rightarrow>
                  (case write_bytes v (STRING_OFFSET * sizeof_cell v) (tok @ [CHR 0x00]) of
                     None \<Rightarrow> Undefined
                   | Some v' \<Rightarrow>
                       let n = strlen str - unat (m v ! SIDX) - length rest
                       in Ret (int n, put SIDX (m v' ! SIDX + of_nat n) v'))))
      else Ret (EOF, v))"

text \<open>The statement \<open>m[m[DIC]++] = x\<close>, with no bounds check. The increment and the
  store are unsequenced, so a store to the cell DIC itself is undefined.\<close>

definition store_at_dic ::
  "('a::len, 'z) forth_scheme \<Rightarrow> 'a word \<Rightarrow> ('a, 'z) forth_scheme option" where
  "store_at_dic v x =
     (let i = unat (m v ! DIC) in
      if i < length (m v) \<and> i \<noteq> DIC
      then Some (put i x (put DIC (m v ! DIC + 1) v))
      else None)"

text \<open>compile: create a new word header at \<open>m[DIC]\<close>.\<close>

definition name_cells :: "('a::len, 'z) forth_scheme \<Rightarrow> string \<Rightarrow> 'a word" where
  "name_cells v str =
     (let l = of_nat (strlen str) + 1;
          l = (l + (of_nat (sizeof_cell v) - 1)) AND NOT (of_nat (sizeof_cell v) - 1)
      in l div of_nat (sizeof_cell v))"

definition compile ::
  "('a::len, 'z) forth_scheme \<Rightarrow> 'a word \<Rightarrow> string \<Rightarrow> ('a, 'z) forth_scheme ret" where
  "compile v code str =
     (if \<not> unat code < LAST then Abort
      else case strcpy v (unat (m v ! DIC) * sizeof_cell v) str of
        None \<Rightarrow> Undefined
      | Some v1 \<Rightarrow>
         (let l = name_cells v str;
              v2 = put DIC (m v1 ! DIC + l) v1
          in (case store_at_dic v2 (m v2 ! PWD) of
               None \<Rightarrow> Undefined
             | Some v3 \<Rightarrow>
                (let v4 = put PWD (m v3 ! DIC - 1) v3
                 in (case store_at_dic v4 (push_bit WORD_LENGTH_OFFSET l OR code) of
                      None \<Rightarrow> Undefined
                    | Some v5 \<Rightarrow> Ret v5)))))"

text \<open>blockio. The file name is the block id printed by \<open>%04x\<close> after its conversion
  to int (32 bits), followed by \<open>.blk\<close>.\<close>

definition block_name :: "'a::len word \<Rightarrow> string" where
  "block_name ident = fmt_0x 4 (unat ident mod 2 ^ 32) @ ''.blk''"

fun read_bytes :: "('a::len, 'z) forth_scheme \<Rightarrow> nat \<Rightarrow> nat \<Rightarrow> string option" where
  "read_bytes v a 0 = Some []"
| "read_bytes v a (Suc n) =
     (case get_byte v a of
        None \<Rightarrow> None
      | Some c \<Rightarrow> map_option ((#) c) (read_bytes v (Suc a) n))"

definition blockio ::
  "('a::len, 'z) forth_scheme \<Rightarrow> 'a word \<Rightarrow> 'a word \<Rightarrow> char
     \<Rightarrow> (int \<times> ('a, 'z) forth_scheme) ret" where
  "blockio v poffset ident rw =
     (if poffset > core_size v * of_nat (sizeof_cell v) - of_nat BLOCK_SIZE then Ret (- 1, v)
      else if rw = CHR ''r'' then
        (case blocks v (block_name ident) of
           None \<Rightarrow> Ret (- 1, to_stderr (file_open_msg (block_name ident)) v)
         | Some content \<Rightarrow>
            (case write_bytes v (unat poffset) (take BLOCK_SIZE content) of
               None \<Rightarrow> Undefined
             | Some v' \<Rightarrow> Ret (if length (take BLOCK_SIZE content) = BLOCK_SIZE then 0 else - 1, v')))
      else
        (case block_write v (block_name ident) of
           None \<Rightarrow> Ret (- 1, to_stderr (file_open_msg (block_name ident)) v)
         | Some k \<Rightarrow>
            if rw = CHR ''w'' then
              (case read_bytes v (unat poffset) BLOCK_SIZE of
                 None \<Rightarrow> Undefined
               | Some bytes \<Rightarrow>
                   Ret (if min k BLOCK_SIZE = BLOCK_SIZE then 0 else - 1,
                        v\<lparr>blocks := (blocks v)(block_name ident \<mapsto> take (min k BLOCK_SIZE) bytes)\<rparr>))
            else Ret (- 1, v\<lparr>blocks := (blocks v)(block_name ident \<mapsto> [])\<rparr>)))"

text \<open>
  strtol of the C library (ISO C 7.22.1.4, with errno as POSIX sets it), for a \<open>long\<close> of
  the given number of bits. The result is the value, the rest of the string at
  \<open>*endptr\<close>, and whether errno was set (ERANGE, or EINVAL for a base that is not 0 or
  2 to 36).
\<close>

definition digit_val :: "char \<Rightarrow> nat option" where
  "digit_val c =
     (let n = (of_char c :: nat) in
      if 48 \<le> n \<and> n \<le> 57 then Some (n - 48)
      else if 97 \<le> n \<and> n \<le> 122 then Some (n - 87)
      else if 65 \<le> n \<and> n \<le> 90 then Some (n - 55)
      else None)"

fun digits_of :: "nat \<Rightarrow> string \<Rightarrow> nat list \<times> string" where
  "digits_of b [] = ([], [])"
| "digits_of b (c # cs) =
     (case digit_val c of
        None \<Rightarrow> ([], c # cs)
      | Some d \<Rightarrow> if d < b then (d # fst (digits_of b cs), snd (digits_of b cs)) else ([], c # cs))"

definition strtol :: "nat \<Rightarrow> string \<Rightarrow> int \<Rightarrow> int \<times> string \<times> bool" where
  "strtol bits nptr base =
     (if base < 0 \<or> base = 1 \<or> 36 < base then (0, c_str nptr, True)
      else
        let s1 = dropWhile isspace (c_str nptr);
            neg = (s1 \<noteq> [] \<and> hd s1 = CHR ''-'');
            s2 = (if s1 \<noteq> [] \<and> (hd s1 = CHR ''-'' \<or> hd s1 = CHR ''+'') then tl s1 else s1);
            prefix = ((base = 0 \<or> base = 16) \<and> 3 \<le> length s2 \<and> s2 ! 0 = CHR ''0''
                      \<and> (s2 ! 1 = CHR ''x'' \<or> s2 ! 1 = CHR ''X'')
                      \<and> (case digit_val (s2 ! 2) of None \<Rightarrow> False | Some d \<Rightarrow> d < 16));
            b = (if base = 0
                 then (if prefix then 16 else if s2 \<noteq> [] \<and> hd s2 = CHR ''0'' then 8 else 10)
                 else nat base);
            ds = digits_of b (if prefix then drop 2 s2 else s2);
            n = foldl (\<lambda>acc d. acc * b + d) 0 (fst ds)
        in if fst ds = [] then (0, c_str nptr, False)
           else if neg \<and> 2 ^ (bits - 1) < n then (- (2 ^ (bits - 1)), snd ds, True)
           else if \<not> neg \<and> 2 ^ (bits - 1) - 1 < n then (2 ^ (bits - 1) - 1, snd ds, True)
           else (if neg then - int n else int n, snd ds, False))"

text \<open>numberify: the result of the function and the value stored in \<open>*n\<close>.\<close>

definition numberify :: "int \<Rightarrow> string \<Rightarrow> bool \<times> 'a::len word" where
  "numberify base s =
     (case strtol LENGTH('a) s base of
        (n, rest, errno) \<Rightarrow> (\<not> errno \<and> c_str s \<noteq> [] \<and> rest = [], of_int n))"

text \<open>The conversion of a cell to the \<open>int\<close> (32 bits) that numberify takes as base.\<close>

definition int_of_cell :: "'a::len word \<Rightarrow> int" where
  "int_of_cell x = sint (ucast x :: 32 word)"

text \<open>
  istrcmp, as forth_find calls it: \<open>a\<close> is the string looked for (the end of the list is its
  NUL) and \<open>b\<close> the byte address in \<open>m\<close> of a name. A comparison that runs out of \<open>m\<close> is
  None.
\<close>

fun istrcmp :: "('a::len, 'z) forth_scheme \<Rightarrow> string \<Rightarrow> nat \<Rightarrow> int option" where
  "istrcmp v [] b =
     (case get_byte v b of
        None \<Rightarrow> None
      | Some cb \<Rightarrow> Some (int (of_char (tolower (CHR 0x00))) - int (of_char (tolower cb))))"
| "istrcmp v (ca # a) b =
     (case get_byte v b of
        None \<Rightarrow> None
      | Some cb \<Rightarrow>
          if (ca = cb \<or> tolower ca = tolower cb) \<and> ca \<noteq> CHR 0x00 \<and> cb \<noteq> CHR 0x00
          then istrcmp v a (Suc b)
          else Some (int (of_char (tolower ca)) - int (of_char (tolower cb))))"

text \<open>
  forth_find. The loop follows the links without a bound or a bounds check, so it may
  read outside \<open>m\<close> (Undefined) and may not end (None).
\<close>

partial_function (option) forth_find_loop ::
  "('a::len, 'z) forth_scheme \<Rightarrow> string \<Rightarrow> 'a word \<Rightarrow> 'a word \<Rightarrow> 'a word ret option" where
  "forth_find_loop v s w len =
     (if \<not> DICTIONARY_START < unat w then Some (Ret 0)
      else if \<not> unat (w + 1) < length (m v) then Some Undefined
      else
        (case (if WORD_HIDDEN (m v ! unat (w + 1)) \<noteq> 0 then Some 1
               else istrcmp v s (unat (w - len) * sizeof_cell v)) of
           None \<Rightarrow> Some Undefined
         | Some d \<Rightarrow>
             if d = 0 then Some (Ret (w + 1))
             else if \<not> unat w < length (m v) then Some Undefined
             else if \<not> unat (m v ! unat w + 1) < length (m v) then Some Undefined
             else forth_find_loop v s (m v ! unat w)
                    (WORD_LENGTH (m v ! unat (m v ! unat w + 1)))))"

definition forth_find :: "('a::len, 'z) forth_scheme \<Rightarrow> string \<Rightarrow> 'a word ret option" where
  "forth_find v s =
     (if \<not> (PWD < length (m v) \<and> unat (m v ! PWD + 1) < length (m v)) then Some Undefined
      else forth_find_loop v s (m v ! PWD) (WORD_LENGTH (m v ! unat (m v ! PWD + 1))))"

text \<open>print_cell: base 16 through hex_fmt (\<open>0x%0kx\<close> with two digits for each byte of a
  cell), any other base as \<open>%u\<close>. None when \<open>m[FOUT]\<close> is no stream open for writing.\<close>

definition fputs :: "string \<Rightarrow> 'a::len word \<Rightarrow> ('a, 'z) forth_scheme \<Rightarrow> ('a, 'z) forth_scheme option" where
  "fputs text file v =
     (case writable v file of
        None \<Rightarrow> None
      | Some out \<Rightarrow> Some (v\<lparr>writable := (writable v)(file \<mapsto> out @ text)\<rparr>))"

definition print_cell :: "('a::len, 'z) forth_scheme \<Rightarrow> 'a word \<Rightarrow> ('a, 'z) forth_scheme option" where
  "print_cell v x =
     fputs (if m v ! BASE = 16 then ''0x'' @ fmt_0x (2 * sizeof_cell v) (unat x) else fmt_u (unat x))
           (m v ! FOUT) v"

section \<open>The Forth virtual machine (libforth.c, section 5)\<close>

text \<open>
  The local variables of forth_run next to the object: the instruction pointer \<open>I\<close>, the
  dispatch cursor \<open>pc\<close>, the cached top of stack \<open>f\<close>, and the local copy of the stack
  pointer (the variable \<open>S\<close> of forth_run, here \<open>sp\<close>, again a cell offset from \<open>m\<close>).
\<close>

record (overloaded) 'a vm = "'a forth" +
  I :: "'a word"
  pc :: "'a word"
  sp :: int
  f :: "'a word"

text \<open>
  How one pass through the switch ends: \<open>break\<close>, \<open>goto INNER\<close>, \<open>goto end\<close>, the
  longjmp of a fatal error, a failed assertion, undefined behaviour, or not at all.
\<close>

datatype 's outcome = Break 's | Goto_INNER 's | Goto_end 's | Longjmp 's
  | Assert_fail | UB | Diverge

text \<open>
  check_bounds, behind the macro \<open>ck\<close> (the build without NDEBUG), followed by the rest
  \<open>k\<close> of the statement it occurs in.
\<close>

definition debug_trace :: "('a::len, 'z) forth_scheme \<Rightarrow> 'a word \<Rightarrow> nat \<Rightarrow> ('a, 'z) forth_scheme" where
  "debug_trace v x line = (if m v ! DEBUG \<noteq> 0 then to_stderr (debug_msg x line) v else v)"

definition check_bounds ::
  "'a::len vm \<Rightarrow> 'a word \<Rightarrow> nat \<Rightarrow> ('a vm \<Rightarrow> 'a vm outcome) \<Rightarrow> 'a vm outcome" where
  "check_bounds v x line k =
     (let v1 = debug_trace v x line in
      if core_size v1 \<le> x then Longjmp (to_stderr (bounds_msg x (core_size v1)) v1)
      else k v1)"

text \<open>\<open>... = m[ck(x)]\<close> and \<open>m[ck(x)] = y\<close>.\<close>

definition load_ck ::
  "'a::len vm \<Rightarrow> 'a word \<Rightarrow> nat \<Rightarrow> ('a word \<Rightarrow> 'a vm \<Rightarrow> 'a vm outcome) \<Rightarrow> 'a vm outcome" where
  "load_ck v x line k =
     check_bounds v x line (\<lambda>v1. if unat x < length (m v1) then k (m v1 ! unat x) v1 else UB)"

definition store_ck ::
  "'a::len vm \<Rightarrow> 'a word \<Rightarrow> nat \<Rightarrow> 'a word \<Rightarrow> ('a vm \<Rightarrow> 'a vm outcome) \<Rightarrow> 'a vm outcome" where
  "store_ck v x line y k =
     check_bounds v x line (\<lambda>v1. if unat x < length (m v1) then k (put (unat x) y v1) else UB)"

text \<open>\<open>*++S = x\<close>, \<open>... = *S--\<close> and \<open>... = *S\<close>.\<close>

definition spush :: "'a::len vm \<Rightarrow> 'a word \<Rightarrow> ('a vm \<Rightarrow> 'a vm outcome) \<Rightarrow> 'a vm outcome" where
  "spush v x k =
     (if 0 \<le> sp v + 1 \<and> sp v + 1 < int (length (m v))
      then k (put (nat (sp v + 1)) x (v\<lparr>sp := sp v + 1\<rparr>))
      else UB)"

definition spop :: "'a::len vm \<Rightarrow> ('a word \<Rightarrow> 'a vm \<Rightarrow> 'a vm outcome) \<Rightarrow> 'a vm outcome" where
  "spop v k =
     (if 0 \<le> sp v \<and> sp v < int (length (m v))
      then k (m v ! nat (sp v)) (v\<lparr>sp := sp v - 1\<rparr>)
      else UB)"

definition speek :: "'a::len vm \<Rightarrow> ('a word \<Rightarrow> 'a vm \<Rightarrow> 'a vm outcome) \<Rightarrow> 'a vm outcome" where
  "speek v k =
     (if 0 \<le> sp v \<and> sp v < int (length (m v)) then k (m v ! nat (sp v)) v else UB)"

text \<open>A call of a helping function inside the switch.\<close>

definition call :: "'x ret \<Rightarrow> ('x \<Rightarrow> 's outcome) \<Rightarrow> 's outcome" where
  "call r k = (case r of Ret x \<Rightarrow> k x | Abort \<Rightarrow> Assert_fail | Undefined \<Rightarrow> UB)"

definition call_opt :: "'x option \<Rightarrow> ('x \<Rightarrow> 's outcome) \<Rightarrow> 's outcome" where
  "call_opt r k = (case r of Some x \<Rightarrow> k x | None \<Rightarrow> UB)"

definition call_find :: "'x ret option \<Rightarrow> ('x \<Rightarrow> 's outcome) \<Rightarrow> 's outcome" where
  "call_find r k = (case r of None \<Rightarrow> Diverge | Some r' \<Rightarrow> call r' k)"

definition cell_of_bool :: "bool \<Rightarrow> 'a::len word" where
  "cell_of_bool b = (if b then 1 else 0)"

text \<open>The byte address of \<open>o->s\<close> in \<open>m\<close>.\<close>

definition s_addr :: "('a::len, 'z) forth_scheme \<Rightarrow> nat" where
  "s_addr v = STRING_OFFSET * sizeof_cell v"

text \<open>The cases of the switch, each with the line numbers its \<open>ck\<close> reports.\<close>

fun exec_op :: "instructions \<Rightarrow> 'a::len vm \<Rightarrow> 'a vm outcome" where
  "exec_op PUSH v =
     spush v (f v) (\<lambda>v. load_ck (v\<lparr>I := I v + 1\<rparr>) (I v) 924 (\<lambda>x v. Break (v\<lparr>f := x\<rparr>)))"
| "exec_op COMPILE v =
     store_ck (put DIC (m v ! DIC + 1) v) (m v ! DIC) 925 (pc v) Break"
| "exec_op RUN v =
     store_ck (put RSTK (m v ! RSTK + 1) v) (m v ! RSTK + 1) 926 (I v) (\<lambda>v. Break (v\<lparr>I := pc v\<rparr>))"
| "exec_op DEFINE v =
     call (forth_get_word (put STATE 1 v)) (\<lambda>(n, v).
       if n < 0 then Goto_end v
       else call_opt (string_at v (s_addr v)) (\<lambda>name.
         call (compile v (of_nat (opcode COMPILE)) name) (\<lambda>v.
           store_ck (put DIC (m v ! DIC + 1) v) (m v ! DIC) 938 (of_nat (opcode RUN)) Break)))"
| "exec_op IMMEDIATE v =
     (let v1 = put DIC (m v ! DIC - 2) v in
      if \<not> unat (m v1 ! DIC) < length (m v1) then UB
      else
        let v2 = put (unat (m v1 ! DIC)) (m v1 ! unat (m v1 ! DIC) AND NOT INSTRUCTION_MASK) v1 in
        if \<not> unat (m v2 ! DIC) < length (m v2) then UB
        else
          let v3 = put (unat (m v2 ! DIC)) (m v2 ! unat (m v2 ! DIC) OR of_nat (opcode RUN)) v2
          in Break (put DIC (m v3 ! DIC + 1) v3))"
| "exec_op READ v =
     call (forth_get_word v) (\<lambda>(n, v).
       if n < 0 then Goto_end v
       else call_opt (string_at v (s_addr v)) (\<lambda>tok.
         call_find (forth_find v tok) (\<lambda>w.
           if 1 < w then
             (if m v ! STATE = 0
              then load_ck v w 983 (\<lambda>x v.
                     Goto_INNER (v\<lparr>pc := (if instruction x = of_nat (opcode COMPILE) then w + 1 else w)\<rparr>))
              else Goto_INNER (v\<lparr>pc := w\<rparr>))
           else
             (case numberify (int_of_cell (m v ! BASE)) tok of
                (ok, n) \<Rightarrow>
                  if \<not> ok then Break (to_stderr (not_a_word_msg tok) v)
                  else if m v ! STATE \<noteq> 0 then
                    call_opt (store_at_dic v 2) (\<lambda>v.
                      store_ck (put DIC (m v ! DIC + 1) v) (m v ! DIC) 992 n Break)
                  else spush v (f v) (\<lambda>v. Break (v\<lparr>f := n\<rparr>))))))"
| "exec_op LOAD v = load_ck v (f v) 1006 (\<lambda>x v. Break (v\<lparr>f := x\<rparr>))"
| "exec_op STORE v =
     check_bounds v (f v) 1007 (\<lambda>v. spop v (\<lambda>x v.
       if \<not> unat (f v) < length (m v) then UB
       else spop (put (unat (f v)) x v) (\<lambda>y v. Break (v\<lparr>f := y\<rparr>))))"
| "exec_op SUB v = spop v (\<lambda>x v. Break (v\<lparr>f := x - f v\<rparr>))"
| "exec_op ADD v = spop v (\<lambda>x v. Break (v\<lparr>f := x + f v\<rparr>))"
| "exec_op AND_I v = spop v (\<lambda>x v. Break (v\<lparr>f := x AND f v\<rparr>))"
| "exec_op OR_I v = spop v (\<lambda>x v. Break (v\<lparr>f := x OR f v\<rparr>))"
| "exec_op XOR_I v = spop v (\<lambda>x v. Break (v\<lparr>f := x XOR f v\<rparr>))"
| "exec_op INV v = Break (v\<lparr>f := NOT (f v)\<rparr>)"
| "exec_op SHL v =
     spop v (\<lambda>x v. if size x \<le> unat (f v) then UB else Break (v\<lparr>f := push_bit (unat (f v)) x\<rparr>))"
| "exec_op SHR v =
     spop v (\<lambda>x v. if size x \<le> unat (f v) then UB else Break (v\<lparr>f := drop_bit (unat (f v)) x\<rparr>))"
| "exec_op MUL v = spop v (\<lambda>x v. Break (v\<lparr>f := x * f v\<rparr>))"
| "exec_op DIV v =
     (if f v \<noteq> 0 then spop v (\<lambda>x v. Break (v\<lparr>f := x div f v\<rparr>))
      else Break (to_stderr div_zero_msg v))"
| "exec_op LESS v = spop v (\<lambda>x v. Break (v\<lparr>f := cell_of_bool (x < f v)\<rparr>))"
| "exec_op MORE v = spop v (\<lambda>x v. Break (v\<lparr>f := cell_of_bool (x > f v)\<rparr>))"
| "exec_op EXIT v =
     load_ck (put RSTK (m v ! RSTK - 1) v) (m v ! RSTK) 1024 (\<lambda>x v. Break (v\<lparr>I := x\<rparr>))"
| "exec_op EMIT v =
     call_opt (fputs [char_of (unat (f v))] (m v ! FOUT) v) (\<lambda>v.
       spop v (\<lambda>x v. Break (v\<lparr>f := x\<rparr>)))"
| "exec_op KEY v =
     spush v (f v) (\<lambda>v. call (forth_get_char v) (\<lambda>(c, v). Break (v\<lparr>f := of_int c\<rparr>)))"
| "exec_op FROMR v =
     spush v (f v) (\<lambda>v.
       load_ck (put RSTK (m v ! RSTK - 1) v) (m v ! RSTK) 1027 (\<lambda>x v. Break (v\<lparr>f := x\<rparr>)))"
| "exec_op TOR v =
     store_ck (put RSTK (m v ! RSTK + 1) v) (m v ! RSTK + 1) 1028 (f v) (\<lambda>v.
       spop v (\<lambda>x v. Break (v\<lparr>f := x\<rparr>)))"
| "exec_op BRANCH v = load_ck v (I v) 1029 (\<lambda>x v. Break (v\<lparr>I := I v + x\<rparr>))"
| "exec_op QBRANCH v =
     (if f v = 0 \<and> \<not> unat (I v) < length (m v) then UB
      else spop (v\<lparr>I := I v + (if f v = 0 then m v ! unat (I v) else 1)\<rparr>)
             (\<lambda>x v. Break (v\<lparr>f := x\<rparr>)))"
| "exec_op PNUM v =
     call_opt (print_cell v (f v)) (\<lambda>v. spop v (\<lambda>x v. Break (v\<lparr>f := x\<rparr>)))"
| "exec_op QUOTE v =
     spush v (f v) (\<lambda>v. load_ck (v\<lparr>I := I v + 1\<rparr>) (I v) 1032 (\<lambda>x v. Break (v\<lparr>f := x\<rparr>)))"
| "exec_op COMMA v =
     store_ck (put DIC (m v ! DIC + 1) v) (m v ! DIC) 1033 (f v) (\<lambda>v.
       spop v (\<lambda>x v. Break (v\<lparr>f := x\<rparr>)))"
| "exec_op EQUAL v = spop v (\<lambda>x v. Break (v\<lparr>f := cell_of_bool (x = f v)\<rparr>))"
| "exec_op SWAP v = spop v (\<lambda>x v'. spush (v'\<lparr>f := x\<rparr>) (f v) Break)"
| "exec_op DUP v = spush v (f v) Break"
| "exec_op DROP v = spop v (\<lambda>x v. Break (v\<lparr>f := x\<rparr>))"
| "exec_op OVER v = speek v (\<lambda>x v. spush v (f v) (\<lambda>v. Break (v\<lparr>f := x\<rparr>)))"
| "exec_op TAIL v = Break (put RSTK (m v ! RSTK - 1) v)"
| "exec_op BSAVE v =
     spop v (\<lambda>x v. call (blockio v x (f v) CHR ''w'') (\<lambda>(r, v). Break (v\<lparr>f := of_int r\<rparr>)))"
| "exec_op BLOAD v =
     spop v (\<lambda>x v. call (blockio v x (f v) CHR ''r'') (\<lambda>(r, v). Break (v\<lparr>f := of_int r\<rparr>)))"
| "exec_op FIND v =
     spush v (f v) (\<lambda>v. call (forth_get_word v) (\<lambda>(n, v).
       if n < 0 then Goto_end v
       else call_opt (string_at v (s_addr v)) (\<lambda>tok.
         call_find (forth_find v tok) (\<lambda>w.
           Break (v\<lparr>f := (if unat w < DICTIONARY_START then 0 else w)\<rparr>)))))"
| "exec_op PRINT v =
     call_opt (string_at v (unat (f v))) (\<lambda>text.
       call_opt (fputs text (m v ! FOUT) v) (\<lambda>v. spop v (\<lambda>x v. Break (v\<lparr>f := x\<rparr>))))"
| "exec_op DEPTH v =
     spush v (f v) (\<lambda>v'.
       Break (v'\<lparr>f := of_int (sp v) - (core_size v - 2 * (m v ! STACK_SIZE))\<rparr>))"
| "exec_op CLOCK v =
     spush v (f v) (\<lambda>v.
       Break (v\<lparr>f := (1000 * clock v - m v ! START_TIME) div CLOCKS_PER_SEC v\<rparr>))"

text \<open>From the label INNER: the assertion, the fetch of the instruction, the switch.\<close>

definition inner :: "'a::len vm \<Rightarrow> 'a vm outcome" where
  "inner v =
     (if \<not> (0 < sp v \<and> sp v < int (unat (core_size v))) then Assert_fail
      else load_ck (v\<lparr>pc := pc v + 1\<rparr>) (pc v) 923 (\<lambda>x v.
             case decode (unat (instruction x)) of
               None \<Rightarrow> Longjmp (to_stderr (illegal_op_msg (instruction x)) v)
             | Some i \<Rightarrow> exec_op i v))"

text \<open>The head of the for loop: \<open>pc = m[ck(I++)]\<close>, and the test of \<open>pc\<close>.\<close>

definition fetch :: "'a::len vm \<Rightarrow> 'a vm outcome" where
  "fetch v =
     load_ck (v\<lparr>I := I v + 1\<rparr>) (I v) 919 (\<lambda>x v.
       if x = 0 then Goto_end v else Goto_INNER (v\<lparr>pc := x\<rparr>))"

text \<open>The loop, entered at its head (True) or at INNER (False), until it is left.\<close>

partial_function (option) dispatch :: "bool \<Rightarrow> 'a::len vm \<Rightarrow> 'a vm outcome option" where
  "dispatch at_head v =
     (case (if at_head then fetch v else inner v) of
        Break v' \<Rightarrow> dispatch True v'
      | Goto_INNER v' \<Rightarrow> dispatch False v'
      | Diverge \<Rightarrow> None
      | r \<Rightarrow> Some r)"

text \<open>
  forth_run. After a longjmp the locals are lost: the object keeps the memory as the
  fatal error left it and the stack pointer stored at the last clean exit.
\<close>

definition enter :: "'a::len forth \<Rightarrow> 'a vm" where
  "enter fo = forth.extend fo (vm.fields (m fo ! INSTRUCTION) 0 (S fo) (m fo ! TOP))"

text \<open>The state an outcome carries.\<close>

fun outcome_state :: "'s outcome \<Rightarrow> 's option" where
  "outcome_state (Break v) = Some v"
| "outcome_state (Goto_INNER v) = Some v"
| "outcome_state (Goto_end v) = Some v"
| "outcome_state (Longjmp v) = Some v"
| "outcome_state Assert_fail = None"
| "outcome_state UB = None"
| "outcome_state Diverge = None"

definition leave :: "'a::len vm \<Rightarrow> 'a forth" where
  "leave v = put TOP (f v) (forth.truncate v\<lparr>S := sp v\<rparr>)"

definition forth_run :: "'a::len forth \<Rightarrow> (int \<times> 'a forth) ret option" where
  "forth_run fo =
     (if \<not> START_TIME < length (m fo) then Some Undefined
      else if m fo ! INVALID \<noteq> 0 then Some (Ret (- 1, put INVALID 1 fo))
      else
        (case dispatch True (enter fo) of
           None \<Rightarrow> None
         | Some (Goto_end v) \<Rightarrow> Some (Ret (0, leave v))
         | Some (Longjmp v) \<Rightarrow> Some (Ret (- 1, put INVALID 1 (forth.truncate v)))
         | Some Assert_fail \<Rightarrow> Some Abort
         | Some r \<Rightarrow> Some Undefined))"

section \<open>API related functions (libforth.c, section 4)\<close>

definition forth_set_file_input :: "('a::len, 'z) forth_scheme \<Rightarrow> 'a word \<Rightarrow> ('a, 'z) forth_scheme ret" where
  "forth_set_file_input fo inp =
     (if inp = 0 then Abort else Ret (put FIN inp (put SOURCE_ID FILE_IN fo)))"

definition forth_set_file_output :: "('a::len, 'z) forth_scheme \<Rightarrow> 'a word \<Rightarrow> ('a, 'z) forth_scheme ret" where
  "forth_set_file_output fo out = (if out = 0 then Abort else Ret (put FOUT out fo))"

definition forth_set_string_input :: "('a::len, 'z) forth_scheme \<Rightarrow> 'a word \<Rightarrow> ('a, 'z) forth_scheme ret" where
  "forth_set_string_input fo s =
     (if s = 0 then Abort
      else case strings fo s of
        None \<Rightarrow> Undefined
      | Some str \<Rightarrow>
          Ret (put SIN s (put SOURCE_ID STRING_IN (put SLEN (of_nat (strlen str) + 1) (put SIDX 0 fo)))))"

definition forth_eval :: "'a::len forth \<Rightarrow> 'a word \<Rightarrow> (int \<times> 'a forth) ret option" where
  "forth_eval fo s =
     (case forth_set_string_input fo s of
        Ret fo' \<Rightarrow> forth_run fo'
      | Abort \<Rightarrow> Some Abort
      | Undefined \<Rightarrow> Some Undefined)"



definition forth_stack_position :: "'a::len forth \<Rightarrow> 'a word" where
  "forth_stack_position fo = of_int (S fo) - (core_size fo - 2 * (m fo ! STACK_SIZE))"

subsection \<open>Loading a core file\<close>

text \<open>enum header: the fields of the file header.\<close>

abbreviation (input) CELL_SIZE :: nat where "CELL_SIZE \<equiv> 4"
abbreviation (input) VERSION :: nat where "VERSION \<equiv> 5"
abbreviation (input) ENDIAN :: nat where "ENDIAN \<equiv> 6"

text \<open>The constant \<open>header\<close> for cells of \<open>w\<close> bytes, and make_header, which fills in the
  byte order of the host (\<open>!IS_BIG_ENDIAN\<close>).\<close>

definition header_bytes :: "nat \<Rightarrow> string" where
  "header_bytes w =
     [CHR 0xFF, CHR ''4'', CHR ''T'', CHR ''H'', char_of w, char_of CORE_VERSION, CHR 0xFF, CHR 0xFF]"

definition make_header :: "bool \<Rightarrow> nat \<Rightarrow> string" where
  "make_header be w = list_update (header_bytes w) ENDIAN (if be then CHR 0x00 else CHR 0x01)"

text \<open>forth_make_default, with the address of \<open>o->m\<close> for START_ADDR.\<close>

definition forth_make_default ::
  "'a::len forth \<Rightarrow> 'a word \<Rightarrow> 'a word \<Rightarrow> 'a word \<Rightarrow> 'a word \<Rightarrow> 'a forth ret" where
  "forth_make_default fo size' inp out addr =
     (if \<not> START_TIME < length (m fo) then Undefined
      else
        let fo = fo\<lparr>core_size := size'\<rparr>;
            fo = put STACK_SIZE (if size' div 64 > 64 then size' div 64 else 64) fo;
            fo = put FOUT out fo;
            fo = put START_ADDR addr fo;
            fo = put STDIN (stdin_ptr fo) fo;
            fo = put STDOUT (stdout_ptr fo) fo;
            fo = put STDERR (stderr_ptr fo) fo;
            fo = put RSTK (size' - m fo ! STACK_SIZE) fo;
            fo = put START_TIME ((1000 * clock fo) div CLOCKS_PER_SEC fo) fo;
            fo = put ARGC 0 (put ARGV 0 fo);
            fo = fo\<lparr>S := int (unat size') - 2 * int (unat (m fo ! STACK_SIZE))\<rparr>
        in forth_set_file_input fo inp)"

text \<open>A \<open>uint64_t\<close> from its 8 bytes in the byte order of the host.\<close>

definition uint64_of :: "bool \<Rightarrow> string \<Rightarrow> nat" where
  "uint64_of be bs = foldr (\<lambda>c acc. of_char c + 256 * acc) (if be then rev bs else bs) 0"

text \<open>
  forth_load_core on a file with the content \<open>dump\<close>. MINIMUM_CORE_SIZE (from libforth.h)
  and \<open>sizeof(struct forth)\<close> are parameters. The result is the new object, or None for
  the null pointer.
\<close>

definition forth_load_core :: "'a::len host \<Rightarrow> nat \<Rightarrow> nat \<Rightarrow> string \<Rightarrow> 'a forth option ret" where
  "forth_load_core h MINIMUM_CORE_SIZE sizeof_forth dump =
     (let cell = LENGTH('a) div 8;
          expected = make_header (big_endian h) cell;
          actual = take 8 dump;
          field = take 8 (drop 8 dump);
          n = uint64_of (big_endian h) field
      in
      if length actual \<noteq> 8 then Ret None
      else if expected \<noteq> actual then Ret None
      else if length field \<noteq> 8 \<or> n < MINIMUM_CORE_SIZE then Ret None
      else
        (case calloc h ((sizeof_forth + cell * n) mod 2 ^ 64) of
           None \<Rightarrow> Ret None
         | Some addr \<Rightarrow>
            (let w = (cell * n) mod 2 ^ 64;
                 content = take w (drop 16 dump);
                 cells = ((sizeof_forth + cell * n) mod 2 ^ 64 - sizeof_forth) div cell
             in
             if length content \<noteq> w then Ret None
             else
               (case write_bytes (host.extend h (forth.fields [] 0 0 (replicate cells 0))) 0 content of
                  None \<Rightarrow> Undefined
                | Some fo \<Rightarrow>
                   (case forth_make_default (fo\<lparr>core_size := of_nat n, header := actual\<rparr>)
                           (of_nat n) (stdin_ptr h) (stdout_ptr h) addr of
                      Ret fo' \<Rightarrow> Ret (Some fo')
                    | Abort \<Rightarrow> Abort
                    | Undefined \<Rightarrow> Undefined)))))"

text \<open>Predicates for the frame of a step: the memory keeps its size.\<close>

definition same_size :: "('a::len, 'y) forth_scheme \<Rightarrow> ('a, 'z) forth_scheme \<Rightarrow> bool" where
  "same_size v v' \<longleftrightarrow> length (m v') = length (m v) \<and> core_size v' = core_size v"

definition keeps_size :: "('a::len, 'y) forth_scheme \<Rightarrow> ('a, 'z) forth_scheme outcome \<Rightarrow> bool" where
  "keeps_size v r \<longleftrightarrow> (\<forall>v'. outcome_state r = Some v' \<longrightarrow> same_size v v')"



declare forth_find_loop.simps [code]
declare dispatch.simps [code]

text \<open>
  The path of the loop: \<open>steps c c'\<close> when the loop, at the configuration \<open>c\<close> (at its head
  or at INNER, and the state), arrives at \<open>c'\<close>.
\<close>

inductive steps :: "bool \<times> 'a::len vm \<Rightarrow> bool \<times> 'a vm \<Rightarrow> bool" where
  here: "steps c c"
| from_head: "fetch v = Goto_INNER v1 \<Longrightarrow> steps (False, v1) c \<Longrightarrow> steps (True, v) c"
| from_break: "inner v = Break v1 \<Longrightarrow> steps (True, v1) c \<Longrightarrow> steps (False, v) c"
| from_goto: "inner v = Goto_INNER v1 \<Longrightarrow> steps (False, v1) c \<Longrightarrow> steps (False, v) c"

section \<open>A concrete instance\<close>

text \<open>
  A paused 64-bit little-endian instance of 2048 cells with stacks of 64 cells: the data
  stack starts at cell 1920 and holds the cells 84 and 5, the dictionary pointer is 100.
\<close>

definition mem0 :: "64 word list" where
  "mem0 = list_update (list_update (list_update (list_update (list_update (list_update
            (replicate 2048 0) DIC 100) RSTK 1984) BASE 10) STACK_SIZE 64) 1921 84) 1922 5"

definition vm0 :: "64 vm" where
  "vm0 = \<lparr>big_endian = False, char_signed = True, readable = Map.empty, writable = Map.empty, strings = Map.empty,
          stderr = [], blocks = Map.empty, block_write = Map.empty, clock = 0,
          CLOCKS_PER_SEC = 1000000, stdin_ptr = 1, stdout_ptr = 2, stderr_ptr = 3,
          calloc = (\<lambda>n. None),
          header = [], core_size = 2048, S = 1920, m = mem0,
          I = 70, pc = 0, sp = 1921, f = 0\<rparr>"

definition forth0 :: "64 forth" where
  "forth0 = forth.truncate vm0"


text \<open>The same instance reading from the host string \<open>s\<close> at address 4096, in state \<open>st\<close>.\<close>

definition vm_str :: "string \<Rightarrow> 64 word \<Rightarrow> 64 vm" where
  "vm_str s st =
     put STATE st (put SLEN (of_nat (length s) + 1) (put SIDX 0 (put SIN 4096 (put SOURCE_ID (- 1)
       (vm0\<lparr>strings := (\<lambda>a. if a = 4096 then Some s else None)\<rparr>)))))"

text \<open>
  A paused instance whose instruction stream runs the one instruction \<open>opc\<close> and ends,
  with the dictionary pointer \<open>dic\<close>, 7 on top of the empty stack, compile mode and the
  input string \<open>s\<close>; and its state when the switch is reached.
\<close>

definition prog :: "64 word \<Rightarrow> 64 word \<Rightarrow> string \<Rightarrow> 64 forth" where
  "prog opc dic s = forth.truncate
     (put TOP 7 (put 80 opc (put 70 80 (put INSTRUCTION 70 (put DIC dic (vm_str s 1))))))"

definition at_switch :: "64 word \<Rightarrow> 64 word \<Rightarrow> string \<Rightarrow> 64 vm" where
  "at_switch opc dic s = (enter (prog opc dic s))\<lparr>I := 71, pc := 81\<rparr>"

text \<open>The instance with one word in its dictionary: \<open>dup\<close>, whose header is the cells
  96 (the name), 97 (the link, 0) and 98 (MISC), with the code cell 99.\<close>

definition vm_dup :: "64 vm" where
  "vm_dup = put PWD 97 (put 99 32 (put 98 0x101 (put 97 0 (put 96 0x707564 vm0))))"


text \<open>A little-endian 64-bit host on which calloc succeeds, and a core file for 32 cells
  (all zero) with the given cell width, version and byte order in its header.\<close>

definition host0 :: "64 host" where
  "host0 = (host.truncate vm0)\<lparr>calloc := (\<lambda>n. Some 4096)\<rparr>"

definition image :: "nat \<Rightarrow> nat \<Rightarrow> nat \<Rightarrow> string" where
  "image width version endian =
     [CHR 0xFF, CHR ''4'', CHR ''T'', CHR ''H'', char_of width, char_of version, char_of endian, CHR 0xFF]
     @ [CHR 0x20, CHR 0x00, CHR 0x00, CHR 0x00, CHR 0x00, CHR 0x00, CHR 0x00, CHR 0x00]
     @ replicate 256 (CHR 0x00)"

section \<open>Properties\<close>

lemma m_put [simp]: "m (put i x v) = list_update (m v) i x"
  by (simp add: put_def)

lemma S_put [simp]: "S (put i x v) = S v"
  by (simp add: put_def)

lemma core_size_put [simp]: "core_size (put i x v) = core_size v"
  by (simp add: put_def)

lemma sp_put [simp]: "sp (put i x v) = sp v"
  by (simp add: put_def)

lemma f_put [simp]: "f (put i x v) = f v"
  by (simp add: put_def)

lemma stderr_put [simp]: "stderr (put i x v) = stderr v"
  by (simp add: put_def)

lemma m_to_stderr [simp]: "m (to_stderr msg v) = m v"
  by (simp add: to_stderr_def)

lemma stderr_to_stderr [simp]: "stderr (to_stderr msg v) = stderr v @ [msg]"
  by (simp add: to_stderr_def)

subsection \<open>The size of the memory is fixed\<close>

declare string_at.simps [simp del]
declare show_base.simps [simp del]

lemma same_size_refl [simp]: "same_size v v" by (simp add: same_size_def)
lemma same_size_put [simp]: "same_size v (put i x v') = same_size v v'" by (simp add: same_size_def)
lemma same_size_to_stderr [simp]: "same_size v (to_stderr t v') = same_size v v'" by (simp add: same_size_def to_stderr_def)

lemma set_byte_size: "set_byte v a b = Some v' \<Longrightarrow> same_size v v'"
  by (auto simp: set_byte_def same_size_def split: if_splits)

lemma same_size_trans: "same_size a b \<Longrightarrow> same_size b c \<Longrightarrow> same_size a c"
  by (simp add: same_size_def)

lemma write_bytes_size: "write_bytes v a bs = Some v' \<Longrightarrow> same_size v v'"
proof (induction bs arbitrary: v a)
  case Nil then show ?case by simp
next
  case (Cons b bs)
  then show ?case by (auto split: option.splits dest!: set_byte_size intro: same_size_trans)
qed

lemma forth_get_word_size: "forth_get_word v = Ret (n, v') \<Longrightarrow> same_size v v'"
  by (auto simp: forth_get_word_def same_size_def Let_def split: if_splits option.splits prod.splits dest!: write_bytes_size)


lemma same_size_upd [simp]:
  "same_size v (v1\<lparr>f := x\<rparr>) = same_size v v1"
  "same_size v (v1\<lparr>I := x\<rparr>) = same_size v v1"
  "same_size v (v1\<lparr>pc := x\<rparr>) = same_size v v1"
  "same_size v (v1\<lparr>sp := y\<rparr>) = same_size v v1"
  "same_size v (v2\<lparr>readable := r\<rparr>) = same_size v v2"
  "same_size v (v2\<lparr>writable := r\<rparr>) = same_size v v2"
  "same_size v (v2\<lparr>blocks := bl\<rparr>) = same_size v v2"
  by (simp_all add: same_size_def)

lemma core_size_to_stderr [simp]: "core_size (to_stderr t v) = core_size v"
  by (simp add: to_stderr_def)

lemma keeps_size_simps [simp]:
  "keeps_size v (Break v') = same_size v v'"
  "keeps_size v (Goto_INNER v') = same_size v v'"
  "keeps_size v (Goto_end v') = same_size v v'"
  "keeps_size v (Longjmp v') = same_size v v'"
  "keeps_size v Assert_fail" "keeps_size v UB" "keeps_size v Diverge"
  by (simp_all add: keeps_size_def)

lemma keeps_check_bounds:
  "same_size v v0 \<Longrightarrow> (\<And>v1. same_size v v1 \<Longrightarrow> keeps_size v (k v1))
     \<Longrightarrow> keeps_size v (check_bounds v0 x l k)"
  by (simp add: check_bounds_def debug_trace_def Let_def)

lemma keeps_load_ck:
  "same_size v v0 \<Longrightarrow> (\<And>y v1. same_size v v1 \<Longrightarrow> keeps_size v (k y v1))
     \<Longrightarrow> keeps_size v (load_ck v0 x l k)"
  unfolding load_ck_def by (rule keeps_check_bounds) auto

lemma keeps_store_ck:
  "same_size v v0 \<Longrightarrow> (\<And>v1. same_size v v1 \<Longrightarrow> keeps_size v (k v1))
     \<Longrightarrow> keeps_size v (store_ck v0 x l y k)"
  unfolding store_ck_def by (rule keeps_check_bounds) auto

lemma keeps_spush:
  "same_size v v0 \<Longrightarrow> (\<And>v1. same_size v v1 \<Longrightarrow> keeps_size v (k v1))
     \<Longrightarrow> keeps_size v (spush v0 x k)"
  by (simp add: spush_def)

lemma keeps_spop:
  "same_size v v0 \<Longrightarrow> (\<And>y v1. same_size v v1 \<Longrightarrow> keeps_size v (k y v1))
     \<Longrightarrow> keeps_size v (spop v0 k)"
  by (simp add: spop_def)

lemma keeps_speek:
  "same_size v v0 \<Longrightarrow> (\<And>y v1. same_size v v1 \<Longrightarrow> keeps_size v (k y v1))
     \<Longrightarrow> keeps_size v (speek v0 k)"
  by (simp add: speek_def)

lemma keeps_call: "(\<And>x. r = Ret x \<Longrightarrow> keeps_size v (k x)) \<Longrightarrow> keeps_size v (call r k)"
  by (cases r) (simp_all add: call_def)

lemma keeps_call_opt: "(\<And>x. r = Some x \<Longrightarrow> keeps_size v (k x)) \<Longrightarrow> keeps_size v (call_opt r k)"
  by (cases r) (simp_all add: call_opt_def)

lemma keeps_call_find: "(\<And>x. r = Some (Ret x) \<Longrightarrow> keeps_size v (k x)) \<Longrightarrow> keeps_size v (call_find r k)"
  by (cases r) (auto simp: call_find_def intro: keeps_call)

lemma keeps_if: "(c \<Longrightarrow> keeps_size v a) \<Longrightarrow> (\<not> c \<Longrightarrow> keeps_size v b) \<Longrightarrow> keeps_size v (if c then a else b)"
  by simp

lemma store_at_dic_size: "store_at_dic v x = Some v' \<Longrightarrow> same_size v v'"
  by (auto simp: store_at_dic_def Let_def same_size_def split: if_splits)

lemma compile_size: "compile v c n = Ret v' \<Longrightarrow> same_size v v'"
  by (auto simp: compile_def strcpy_def Let_def same_size_def split: if_splits option.splits
      dest!: write_bytes_size store_at_dic_size)

lemma forth_get_char_size: "forth_get_char v = Ret (c, v') \<Longrightarrow> same_size v v'"
  by (auto simp: forth_get_char_def same_size_def split: if_splits option.splits list.splits)

lemma blockio_size: "blockio v p i rw = Ret (r, v') \<Longrightarrow> same_size v v'"
  by (auto simp: blockio_def same_size_def to_stderr_def split: if_splits option.splits dest!: write_bytes_size)

lemma fputs_size: "fputs t h v = Some v' \<Longrightarrow> same_size v v'"
  by (auto simp: fputs_def same_size_def split: option.splits)

lemma print_cell_size: "print_cell v x = Some v' \<Longrightarrow> same_size v v'"
  unfolding print_cell_def by (rule fputs_size)

lemmas keeps_intros = keeps_check_bounds keeps_load_ck keeps_store_ck keeps_spush keeps_spop
  keeps_speek keeps_call keeps_call_opt keeps_call_find keeps_if

lemma exec_op_size: "keeps_size v (exec_op i v)"
  by (cases i)
     (auto intro!: keeps_intros simp: Let_def same_size_def split: prod.splits
        dest!: forth_get_word_size compile_size forth_get_char_size blockio_size fputs_size
               print_cell_size store_at_dic_size)


lemma keeps_trans: "same_size v v1 \<Longrightarrow> keeps_size v1 r \<Longrightarrow> keeps_size v r"
  by (auto simp: keeps_size_def same_size_def)

lemma inner_size: "keeps_size v (inner v)"
  unfolding inner_def
  by (auto intro!: keeps_intros split: option.splits intro: keeps_trans [OF _ exec_op_size])

lemma fetch_size: "keeps_size v (fetch v)"
  unfolding fetch_def by (auto intro!: keeps_intros simp: same_size_def)

lemma dispatch_size:
  assumes run: "dispatch b v = Some r"
  shows "keeps_size v r"
proof (rule dispatch.raw_induct [where P = "\<lambda>b v r. keeps_size v r", OF _ run], goal_cases)
  case (1 dispatch at_head v r)
  have step: "keeps_size v (if at_head then fetch v else inner v)"
    by (simp add: fetch_size inner_size)
  show ?case
  proof (cases "if at_head then fetch v else inner v")
    case (Break v')
    with 1 step show ?thesis by (auto intro: keeps_trans)
  next
    case (Goto_INNER v')
    with 1 step show ?thesis by (auto intro: keeps_trans)
  qed (use 1 step in auto)
qed

lemma forth_run_size:
  assumes "forth_run fo = Some (Ret (r, fo'))"
  shows "length (m fo') = length (m fo) \<and> core_size fo' = core_size fo"
proof (cases "m fo ! INVALID \<noteq> 0 \<or> \<not> START_TIME < length (m fo)")
  case True
  with assms show ?thesis by (auto simp: forth_run_def split: if_splits)
next
  case False
  with assms obtain x where d: "dispatch True (enter fo) = Some x"
    by (auto simp: forth_run_def split: option.splits)
  from dispatch_size [OF d] have "keeps_size fo x"
    by (simp add: keeps_size_def same_size_def enter_def forth.defs vm.defs)
  with assms False d show ?thesis
    by (auto simp: forth_run_def leave_def forth.defs same_size_def split: outcome.splits)
qed


lemma put_put [simp]: "put i x (put i y v) = put i x v"
  by (simp add: put_def)

lemma forth_run_invalid:
  "START_TIME < length (m fo) \<Longrightarrow> m fo ! INVALID \<noteq> 0
     \<Longrightarrow> forth_run fo = Some (Ret (- 1, put INVALID 1 fo))"
  by (simp add: forth_run_def)

lemma forth_run_failed:
  assumes "forth_run fo = Some (Ret (r, fo'))" and "r \<noteq> 0"
  shows "r = - 1 \<and> (\<exists>x. fo' = put INVALID 1 x)"
  using assms
  by (auto simp: forth_run_def split: if_splits option.splits outcome.splits)

subsection \<open>The claims\<close>



text \<open>
  C2. Executing DIV with the cached top of stack f = 0 appends exactly the diagnostic
  ( error "x/0" ) to stderr and changes neither f nor the stack pointer nor the memory;
  with f not 0, and the stack pointer inside the memory, it pops the second cell and
  leaves the unsigned quotient of that cell by f as the new top.
\<close>

theorem div_opcode:
  fixes v :: "'a::len vm"
  shows "(f v = 0 \<longrightarrow>
            (\<exists>v'. exec_op DIV v = Break v' \<and> stderr v' = stderr v @ [div_zero_msg]
                  \<and> f v' = f v \<and> sp v' = sp v \<and> m v' = m v))
       \<and> (f v \<noteq> 0 \<and> 0 \<le> sp v \<and> sp v < int (length (m v)) \<longrightarrow>
            (\<exists>v'. exec_op DIV v = Break v' \<and> stderr v' = stderr v
                  \<and> f v' = (m v ! nat (sp v)) div f v \<and> sp v' = sp v - 1 \<and> m v' = m v))"
  by (simp add: spop_def to_stderr_def)

theorem div_opcode_witness:
  "(\<exists>v'. exec_op DIV vm0 = Break v' \<and> stderr v' = stderr vm0 @ [div_zero_msg]
          \<and> f v' = f vm0 \<and> sp v' = sp vm0 \<and> m v' = m vm0)
   \<and> (\<exists>v'. exec_op DIV (vm0\<lparr>f := 4\<rparr>) = Break v' \<and> f v' = 21 \<and> sp v' = 1920)"
  using div_opcode [of vm0] div_opcode [of "vm0\<lparr>f := 4\<rparr>"]
  by (auto simp: vm0_def mem0_def)

text \<open>
  C8. Only an instance with INVALID = 0 completes a run. A run of an instance whose INVALID
  register is not 0 returns -1 at once and changes nothing but that register, which it
  sets to 1; and after any run that returned an error, INVALID is 1 and every further
  run returns -1 and leaves the instance exactly as it is.
\<close>

theorem invalid_sticky:
  fixes fo :: "'a::len forth"
  assumes "START_TIME < length (m fo)"
  shows "(m fo ! INVALID \<noteq> 0 \<longrightarrow> forth_run fo = Some (Ret (- 1, put INVALID 1 fo)))
       \<and> (\<forall>fo'. forth_run fo = Some (Ret (0, fo')) \<longrightarrow> m fo ! INVALID = 0)
       \<and> (\<forall>r fo'. forth_run fo = Some (Ret (r, fo')) \<and> r \<noteq> 0 \<longrightarrow>
             r = - 1 \<and> m fo' ! INVALID = 1 \<and> forth_run fo' = Some (Ret (- 1, fo')))"
proof (intro conjI allI impI)
  assume "m fo ! INVALID \<noteq> 0"
  with assms show "forth_run fo = Some (Ret (- 1, put INVALID 1 fo))"
    by (rule forth_run_invalid)
next
  fix fo' assume "forth_run fo = Some (Ret (0, fo'))"
  with assms show "m fo ! INVALID = 0"
    by (auto simp: forth_run_def split: if_splits)
next
  fix r fo' assume a: "forth_run fo = Some (Ret (r, fo')) \<and> r \<noteq> 0"
  then have run: "forth_run fo = Some (Ret (r, fo'))" and "r \<noteq> 0" by simp_all
  from forth_run_failed [OF this] obtain x where r: "r = - 1" and x: "fo' = put INVALID 1 x"
    by blast
  from forth_run_size [OF run] assms have len: "START_TIME < length (m fo')" by simp
  then have inv: "m fo' ! INVALID = 1" using x by simp
  then have "m fo' ! INVALID \<noteq> 0" by simp
  from forth_run_invalid [OF len this] x
  have "forth_run fo' = Some (Ret (- 1, fo'))" by simp
  with r inv show "r = - 1" "m fo' ! INVALID = 1" "forth_run fo' = Some (Ret (- 1, fo'))"
    by simp_all
qed


lemma dispatch_forth0: "dispatch True (enter forth0) = Some (Goto_end ((enter forth0)\<lparr>I := 1\<rparr>))"
  by (subst dispatch.simps)
     (simp add: forth0_def vm0_def mem0_def forth.defs vm.defs enter_def
        fetch_def load_ck_def check_bounds_def debug_trace_def)

theorem invalid_sticky_witness:
  "START_TIME < length (m forth0) \<and> m (put INVALID 1 forth0) ! INVALID \<noteq> 0
   \<and> forth_run (put INVALID 1 forth0) = Some (Ret (- 1, put INVALID 1 forth0))
   \<and> forth_run forth0 = Some (Ret (0, leave ((enter forth0)\<lparr>I := 1\<rparr>)))
   \<and> m forth0 ! INVALID = 0"
proof -
  have a: "START_TIME < length (m forth0)"
    by (simp add: forth0_def vm0_def mem0_def forth.defs)
  then have b: "START_TIME < length (m (put INVALID 1 forth0))"
    by simp
  from a have c: "m (put INVALID 1 forth0) ! INVALID \<noteq> 0"
    by simp
  have r1: "forth_run (put INVALID 1 forth0) = Some (Ret (- 1, put INVALID 1 forth0))"
    using invalid_sticky [OF b, THEN conjunct1, THEN mp, OF c] by simp
  have z: "m forth0 ! INVALID = 0"
    by (simp add: forth0_def vm0_def mem0_def forth.defs)
  have r0: "forth_run forth0 = Some (Ret (0, leave ((enter forth0)\<lparr>I := 1\<rparr>)))"
    using a z by (simp add: forth_run_def dispatch_forth0)
  from a c r1 r0 invalid_sticky [OF a, THEN conjunct2, THEN conjunct1, THEN spec, THEN mp, OF r0]
  show ?thesis by blast
qed

subsection \<open>Block transfers\<close>

lemma sizeof_cell_const: "sizeof_cell (v' :: ('a::len, 'y) forth_scheme) = sizeof_cell (v :: ('a, 'z) forth_scheme)"
  by (simp add: sizeof_cell_def word_size)

lemma write_bytes_in_range:
  "a + length bs \<le> length (m v) * sizeof_cell v \<Longrightarrow> \<exists>v'. write_bytes v a bs = Some v'"
proof (induction bs arbitrary: v a)
  case Nil then show ?case by simp
next
  case (Cons b bs)
  then have "a < length (m v) * sizeof_cell v" by simp
  then obtain v1 where s: "set_byte v a b = Some v1" by (auto simp: set_byte_def)
  from set_byte_size [OF s] have "length (m v1) * sizeof_cell v1 = length (m v) * sizeof_cell v"
    by (simp add: same_size_def sizeof_cell_const [of v1 v])
  with Cons.prems have "Suc a + length bs \<le> length (m v1) * sizeof_cell v1" by simp
  from Cons.IH [OF this] s show ?case by simp
qed





lemma write_bytes_memory_only: "write_bytes v a bs = Some v' \<Longrightarrow> \<exists>ms. v' = v\<lparr>m := ms\<rparr>"
proof (induction bs arbitrary: v a)
  case Nil
  then have "v' = v\<lparr>m := m v\<rparr>" by simp
  then show ?case ..
next
  case (Cons b bs)
  from Cons.prems obtain v1 where s: "set_byte v a b = Some v1"
    and w: "write_bytes v1 (Suc a) bs = Some v'"
    by (auto split: option.splits)
  from s obtain x where "v1 = v\<lparr>m := x\<rparr>"
    by (auto simp: set_byte_def put_def split: if_splits)
  with Cons.IH [OF w] show ?case by auto
qed












lemma sizeof_cell_put [simp]: "sizeof_cell (put i x v) = sizeof_cell v"
  by (simp add: sizeof_cell_def put_def)

lemma big_endian_put [simp]: "big_endian (put i x v) = big_endian v"
  by (simp add: put_def)












subsection \<open>The outer interpreter\<close>


lemma sp_to_stderr [simp]: "sp (to_stderr t v) = sp v"
  by (simp add: to_stderr_def)

lemma f_to_stderr [simp]: "f (to_stderr t v) = f v"
  by (simp add: to_stderr_def)





lemmas eval_state = vm_str_def vm0_def mem0_def put_def sizeof_cell_def word_size
lemmas eval_bytes = get_byte_def set_byte_def cell_byte_def cell_set_byte_def lane_def char_of_eq_iff
lemmas eval_scan = forth_get_word_def scan_word_def isspace_def c_str_def strlen_def
lemmas eval_number = numberify_def strtol_def c_str_def isspace_def digit_val_def int_of_cell_def







subsection \<open>Bounds of the dictionary\<close>

lemma steps_dispatch: "steps c c' \<Longrightarrow> dispatch (fst c) (snd c) = dispatch (fst c') (snd c')"
proof (induction rule: steps.induct)
  case (here c)
  show ?case by simp
next
  case (from_head v v1 c)
  then show ?case by (subst dispatch.simps) simp
next
  case (from_break v v1 c)
  then show ?case by (subst dispatch.simps) simp
next
  case (from_goto v v1 c)
  then show ?case by (subst dispatch.simps) simp
qed

lemma dispatch_fatal: "inner v = Longjmp v' \<Longrightarrow> dispatch False v = Some (Longjmp v')"
  by (subst dispatch.simps) simp

lemma forth_run_fatal:
  fixes fo :: "'a::len forth"
  assumes ok: "START_TIME < length (m fo)" "m fo ! INVALID = 0"
    and run: "steps (True, enter fo) (False, v)"
    and fatal: "inner v = Longjmp v'"
  shows "forth_run fo = Some (Ret (- 1, put INVALID 1 (forth.truncate v')))
         \<and> m (put INVALID 1 (forth.truncate v')) ! INVALID = 1"
proof -
  from steps_dispatch [OF run] dispatch_fatal [OF fatal]
  have d: "dispatch True (enter fo) = Some (Longjmp v')" by simp
  from dispatch_size [OF d] have "length (m v') = length (m fo)"
    by (simp add: same_size_def enter_def forth.defs vm.defs)
  with ok d show ?thesis
    by (simp add: forth_run_def forth.defs)
qed

lemma debug_trace_fields [simp]:
  "m (debug_trace v x l) = m v" "core_size (debug_trace v x l) = core_size v"
  by (simp_all add: debug_trace_def)

lemma debug_trace_locals [simp]:
  "sp (debug_trace v x l) = sp v" "f (debug_trace v x l) = f v"
  "pc (debug_trace v x l) = pc v" "I (debug_trace v x l) = I v"
  by (simp_all add: debug_trace_def to_stderr_def)

lemma check_bounds_fatal:
  "core_size v \<le> x \<Longrightarrow>
     check_bounds v x line k = Longjmp (to_stderr (bounds_msg x (core_size v)) (debug_trace v x line))"
  by (simp add: check_bounds_def Let_def)

lemma check_bounds_ok: "x < core_size v \<Longrightarrow> check_bounds v x line k = k (debug_trace v x line)"
  by (auto simp: check_bounds_def Let_def)

lemma store_ck_fatal:
  "core_size v \<le> x \<Longrightarrow>
     store_ck v x line y k = Longjmp (to_stderr (bounds_msg x (core_size v)) (debug_trace v x line))"
  by (simp add: store_ck_def check_bounds_fatal)

lemma store_ck_ok:
  "x < core_size v \<Longrightarrow> length (m v) = unat (core_size v) \<Longrightarrow>
     store_ck v x line y k = k (put (unat x) y (debug_trace v x line))"
  by (simp add: store_ck_def check_bounds_ok word_less_nat_alt)

lemma load_ck_ok:
  "x < core_size v \<Longrightarrow> length (m v) = unat (core_size v) \<Longrightarrow>
     load_ck v x line k = k (m v ! unat x) (debug_trace v x line)"
  by (simp add: load_ck_def check_bounds_ok word_less_nat_alt)

lemma inner_op:
  assumes "allocated v" and "0 < sp v" and "sp v < int (unat (core_size v))"
    and "pc v < core_size v"
    and "decode (unat (instruction (m v ! unat (pc v)))) = Some i"
  shows "inner v = exec_op i (debug_trace (v\<lparr>pc := pc v + 1\<rparr>) (pc v) 923)"
  using assms by (simp add: inner_def load_ck_ok allocated_def)


text \<open>
  C3, as the code has it. The run of forth_run has arrived at INNER in an allocated state v
  with a valid stack pointer and pc, and the instruction there is i. The cell that
  COMPILE and COMMA append, the RUN cell that DEFINE appends after the header, and the
  value cell of a compiled number literal are written through check_bounds, which compares
  the index with the core size N and not with the stack base: with DIC < N the cell is
  written and DIC grows by one (for COMPILE, COMMA and DEFINE; for the literal see C1);
  with DIC \<ge> N at that write, forth_run returns -1 and INVALID is 1.
\<close>

theorem dictionary_append_bounds:
  fixes fo :: "'a::len forth" and v u :: "'a vm" and x :: "'a word"
  assumes ok: "START_TIME < length (m fo)" "m fo ! INVALID = 0"
    and run: "steps (True, enter fo) (False, v)"
    and alloc: "allocated v"
    and stack: "0 < sp v" "sp v < int (unat (core_size v))"
    and pcok: "pc v < core_size v"
    and op: "decode (unat (instruction (m v ! unat (pc v)))) = Some i"
    and u: "u = debug_trace (v\<lparr>pc := pc v + 1\<rparr>) (pc v) 923"
  shows "inner v = exec_op i u
    \<and> (i = COMPILE \<and> m v ! DIC < core_size v \<longrightarrow>
           (\<exists>v'. inner v = Break v'
              \<and> m v' = list_update (list_update (m v) DIC (m v ! DIC + 1)) (unat (m v ! DIC)) (pc v + 1)))
    \<and> (i = COMMA \<and> m v ! DIC < core_size v \<longrightarrow>
           (\<exists>v'. inner v = Break v'
              \<and> m v' = list_update (list_update (m v) DIC (m v ! DIC + 1)) (unat (m v ! DIC)) (f v)))
    \<and> (i = DEFINE \<and> forth_get_word (put STATE 1 u) = Ret (n, v1) \<and> 0 \<le> n
           \<and> string_at v1 (s_addr v1) = Some name
           \<and> compile v1 (of_nat (opcode COMPILE)) name = Ret v3 \<and> m v3 ! DIC < core_size v \<longrightarrow>
           (\<exists>v'. inner v = Break v'
              \<and> m v' = list_update (list_update (m v3) DIC (m v3 ! DIC + 1)) (unat (m v3 ! DIC))
                          (of_nat (opcode RUN))))
    \<and> ((i = COMPILE \<or> i = COMMA) \<and> core_size v \<le> m v ! DIC
         \<or> i = DEFINE \<and> forth_get_word (put STATE 1 u) = Ret (n, v1) \<and> 0 \<le> n
             \<and> string_at v1 (s_addr v1) = Some name
             \<and> compile v1 (of_nat (opcode COMPILE)) name = Ret v3 \<and> core_size v \<le> m v3 ! DIC
         \<or> i = READ \<and> forth_get_word u = Ret (n, v1) \<and> 0 \<le> n
             \<and> string_at v1 (s_addr v1) = Some tok \<and> forth_find v1 tok = Some (Ret w) \<and> \<not> 1 < w
             \<and> numberify (int_of_cell (m v1 ! BASE)) tok = (True, x) \<and> m v1 ! STATE \<noteq> 0
             \<and> store_at_dic v1 2 = Some v2 \<and> core_size v \<le> m v2 ! DIC
         \<longrightarrow> (\<exists>fo'. forth_run fo = Some (Ret (- 1, fo')) \<and> m fo' ! INVALID = 1))"
proof -
  have in_op: "inner v = exec_op i u"
    unfolding u using alloc stack pcok op by (rule inner_op)
  have len: "length (m u) = unat (core_size u)" "core_size u = core_size v" "m u = m v"
    "0 \<le> sp u" "sp u < int (length (m u))" "f u = f v" "pc u = pc v + 1"
    using alloc stack by (simp_all add: u allocated_def)
  have p1: "i = COMPILE \<and> m v ! DIC < core_size v \<longrightarrow>
           (\<exists>v'. inner v = Break v'
              \<and> m v' = list_update (list_update (m v) DIC (m v ! DIC + 1)) (unat (m v ! DIC)) (pc v + 1))"
    using len by (simp add: in_op store_ck_ok)
  have p2: "i = COMMA \<and> m v ! DIC < core_size v \<longrightarrow>
           (\<exists>v'. inner v = Break v'
              \<and> m v' = list_update (list_update (m v) DIC (m v ! DIC + 1)) (unat (m v ! DIC)) (f v))"
    using len by (simp add: in_op store_ck_ok spop_def)
  have sized: "length (m v3) = unat (core_size v3) \<and> core_size v3 = core_size v"
    if "forth_get_word (put STATE 1 u) = Ret (n, v1)" "compile v1 (of_nat (opcode COMPILE)) name = Ret v3"
    using forth_get_word_size [OF that(1)] compile_size [OF that(2)] len
    by (simp add: same_size_def)
  have p3: "i = DEFINE \<and> forth_get_word (put STATE 1 u) = Ret (n, v1) \<and> 0 \<le> n
           \<and> string_at v1 (s_addr v1) = Some name
           \<and> compile v1 (of_nat (opcode COMPILE)) name = Ret v3 \<and> m v3 ! DIC < core_size v \<longrightarrow>
           (\<exists>v'. inner v = Break v'
              \<and> m v' = list_update (list_update (m v3) DIC (m v3 ! DIC + 1)) (unat (m v3 ! DIC))
                          (of_nat (opcode RUN)))"
    using sized by (auto simp: in_op call_def call_opt_def store_ck_ok)
  have sized2: "core_size v2 = core_size v"
    if "forth_get_word u = Ret (n, v1)" "store_at_dic v1 2 = Some v2"
    using forth_get_word_size [OF that(1)] store_at_dic_size [OF that(2)] len
    by (simp add: same_size_def)
  have "\<exists>v'. inner v = Longjmp v'"
    if "(i = COMPILE \<or> i = COMMA) \<and> core_size v \<le> m v ! DIC
         \<or> i = DEFINE \<and> forth_get_word (put STATE 1 u) = Ret (n, v1) \<and> 0 \<le> n
             \<and> string_at v1 (s_addr v1) = Some name
             \<and> compile v1 (of_nat (opcode COMPILE)) name = Ret v3 \<and> core_size v \<le> m v3 ! DIC
         \<or> i = READ \<and> forth_get_word u = Ret (n, v1) \<and> 0 \<le> n
             \<and> string_at v1 (s_addr v1) = Some tok \<and> forth_find v1 tok = Some (Ret w) \<and> \<not> 1 < w
             \<and> numberify (int_of_cell (m v1 ! BASE)) tok = (True, x) \<and> m v1 ! STATE \<noteq> 0
             \<and> store_at_dic v1 2 = Some v2 \<and> core_size v \<le> m v2 ! DIC"
    using that sized sized2 len
    by (elim disjE conjE) (auto simp: in_op call_def call_opt_def call_find_def store_ck_fatal)
  then have p4: "(i = COMPILE \<or> i = COMMA) \<and> core_size v \<le> m v ! DIC
         \<or> i = DEFINE \<and> forth_get_word (put STATE 1 u) = Ret (n, v1) \<and> 0 \<le> n
             \<and> string_at v1 (s_addr v1) = Some name
             \<and> compile v1 (of_nat (opcode COMPILE)) name = Ret v3 \<and> core_size v \<le> m v3 ! DIC
         \<or> i = READ \<and> forth_get_word u = Ret (n, v1) \<and> 0 \<le> n
             \<and> string_at v1 (s_addr v1) = Some tok \<and> forth_find v1 tok = Some (Ret w) \<and> \<not> 1 < w
             \<and> numberify (int_of_cell (m v1 ! BASE)) tok = (True, x) \<and> m v1 ! STATE \<noteq> 0
             \<and> store_at_dic v1 2 = Some v2 \<and> core_size v \<le> m v2 ! DIC
         \<longrightarrow> (\<exists>fo'. forth_run fo = Some (Ret (- 1, fo')) \<and> m fo' ! INVALID = 1)"
    using forth_run_fatal [OF ok run] by blast
  from in_op p1 p2 p3 p4 show ?thesis by (intro conjI)
qed


lemmas eval_prog = prog_def at_switch_def enter_def forth.defs vm.defs eval_state

lemma prog_fetch:
  "fetch (enter (prog opc dic s)) = Goto_INNER ((enter (prog opc dic s))\<lparr>I := 71, pc := 80\<rparr>)"
  by (simp add: fetch_def load_ck_def check_bounds_def debug_trace_def eval_prog)

lemma prog_steps:
  "steps (True, enter (prog opc dic s)) (False, (enter (prog opc dic s))\<lparr>I := 71, pc := 80\<rparr>)"
  by (rule steps.from_head [OF prog_fetch steps.here])

lemma prog_switch:
  "at_switch opc dic s = debug_trace ((enter (prog opc dic s))\<lparr>I := 71, pc := 80\<rparr>\<lparr>pc := pc ((enter (prog opc dic s))\<lparr>I := 71, pc := 80\<rparr>) + 1\<rparr>) (pc ((enter (prog opc dic s))\<lparr>I := 71, pc := 80\<rparr>)) 923"
  by (simp add: debug_trace_def eval_prog)


lemma name_cells_x: "name_cells (v :: 64 vm) ''x'' = 1"
  by (simp add: name_cells_def strlen_def c_str_def sizeof_cell_def word_size Let_def)

lemma define_x:
  "\<exists>v1. forth_get_word (put STATE 1 (at_switch 3 dic ''x'')) = Ret (1, v1)
      \<and> string_at v1 (s_addr v1) = Some ''x''
      \<and> (dic = 2045 \<or> dic = 100 \<longrightarrow> (\<exists>v3. compile v1 (of_nat (opcode COMPILE)) ''x'' = Ret v3 \<and> m v3 ! DIC = dic + 3))"
  by (auto simp: eval_scan eval_prog eval_bytes Let_def s_addr_def string_at.simps
        compile_def strcpy_def store_at_dic_def name_cells_x)


lemma literal_42:
  "forth_get_word (at_switch 5 2047 ''42'')
     = Ret (2, put SIDX 2 (put 32 0x3234 (at_switch 5 2047 ''42'')))"
  "string_at (put SIDX 2 (put 32 0x3234 (at_switch 5 2047 ''42'')))
     (s_addr (put SIDX 2 (put 32 0x3234 (at_switch 5 2047 ''42'')))) = Some ''42''"
  "numberify (int_of_cell (m (put SIDX 2 (put 32 0x3234 (at_switch 5 2047 ''42''))) ! BASE)) ''42''
     = (True, 42 :: 64 word)"
  "m (put SIDX 2 (put 32 0x3234 (at_switch 5 2047 ''42''))) ! STATE \<noteq> 0"
  "\<exists>v2. store_at_dic (put SIDX 2 (put 32 0x3234 (at_switch 5 2047 ''42''))) 2 = Some v2
      \<and> m v2 ! DIC = 2048"
  by (simp_all add: eval_scan eval_prog eval_bytes eval_number Let_def s_addr_def string_at.simps
        store_at_dic_def)

lemma literal_42_find:
  "forth_find (put SIDX 2 (put 32 0x3234 (at_switch 5 2047 ''42''))) ''42'' = Some (Ret 0)"
  unfolding forth_find_def
  by (subst forth_find_loop.simps) (simp add: eval_prog)

lemma prog_ready:
  shows "START_TIME < length (m (prog opc dic s))" "m (prog opc dic s) ! INVALID = 0"
    "allocated ((enter (prog opc dic s))\<lparr>I := 71, pc := 80\<rparr>)"
    "0 < sp ((enter (prog opc dic s))\<lparr>I := 71, pc := 80\<rparr>)"
    "sp ((enter (prog opc dic s))\<lparr>I := 71, pc := 80\<rparr>)
       < int (unat (core_size ((enter (prog opc dic s))\<lparr>I := 71, pc := 80\<rparr>)))"
    "pc ((enter (prog opc dic s))\<lparr>I := 71, pc := 80\<rparr>)
       < core_size ((enter (prog opc dic s))\<lparr>I := 71, pc := 80\<rparr>)"
    "instruction (m ((enter (prog opc dic s))\<lparr>I := 71, pc := 80\<rparr>)
        ! unat (pc ((enter (prog opc dic s))\<lparr>I := 71, pc := 80\<rparr>))) = instruction opc"
  by (simp_all add: eval_prog allocated_def)

lemma decode_ops:
  "decode (unat (instruction (29 :: 64 word))) = Some COMMA"
  "decode (unat (instruction (1 :: 64 word))) = Some COMPILE"
  "decode (unat (instruction (3 :: 64 word))) = Some DEFINE"
  "decode (unat (instruction (5 :: 64 word))) = Some READ"
  by (simp_all add: decode_def instruction_def INSTRUCTION_MASK_def instruction_list_def)


theorem dictionary_append_bounds_witness:
  "(\<exists>v'. inner ((enter (prog 29 1920 []))\<lparr>I := 71, pc := 80\<rparr>) = Break v'
        \<and> m v' ! 1920 = 7 \<and> m v' ! DIC = 1921)
   \<and> (\<exists>v'. inner ((enter (prog 1 1920 []))\<lparr>I := 71, pc := 80\<rparr>) = Break v'
        \<and> m v' ! 1920 = 81 \<and> m v' ! DIC = 1921)
   \<and> (\<exists>v'. inner ((enter (prog 3 100 ''x''))\<lparr>I := 71, pc := 80\<rparr>) = Break v'
        \<and> m v' ! 103 = 2 \<and> m v' ! DIC = 104)
   \<and> (\<exists>fo'. forth_run (prog 29 2048 []) = Some (Ret (- 1, fo')) \<and> m fo' ! INVALID = 1)
   \<and> (\<exists>fo'. forth_run (prog 3 2045 ''x'') = Some (Ret (- 1, fo')) \<and> m fo' ! INVALID = 1)
   \<and> (\<exists>fo'. forth_run (prog 5 2047 ''42'') = Some (Ret (- 1, fo')) \<and> m fo' ! INVALID = 1)"
proof -
  have op: "decode (unat (instruction (m ((enter (prog opc dic s))\<lparr>I := 71, pc := 80\<rparr>)
              ! unat (pc ((enter (prog opc dic s))\<lparr>I := 71, pc := 80\<rparr>))))) = Some i"
    if "decode (unat (instruction opc)) = Some i" for opc dic s i
    using that prog_ready(7) [of opc dic s] by simp
  note T = dictionary_append_bounds [OF prog_ready(1,2) prog_steps prog_ready(3,4,5,6) op prog_switch]
  have mem: "m (enter (prog opc dic s)) ! DIC = dic"
    "core_size (enter (prog opc dic s)) = 2048"
    "f (enter (prog opc dic s)) = 7"
    "length (m (enter (prog opc dic s))) = 2048"
    "length (m (at_switch opc dic s)) = 2048" "core_size (at_switch opc dic s) = 2048"
    for opc dic s
    by (simp_all add: eval_prog)
  have A: "\<exists>v'. inner ((enter (prog 29 1920 []))\<lparr>I := 71, pc := 80\<rparr>) = Break v'
        \<and> m v' ! 1920 = 7 \<and> m v' ! DIC = 1921"
    using T [OF decode_ops(1), of 1920 "[]", THEN conjunct2, THEN conjunct2, THEN conjunct1]
    by (auto simp: mem)
  have B: "\<exists>v'. inner ((enter (prog 1 1920 []))\<lparr>I := 71, pc := 80\<rparr>) = Break v'
        \<and> m v' ! 1920 = 81 \<and> m v' ! DIC = 1921"
    using T [OF decode_ops(2), of 1920 "[]", THEN conjunct2, THEN conjunct1]
    by (auto simp: mem)
  from define_x [of 100] obtain v1 v3
    where d: "forth_get_word (put STATE 1 (at_switch 3 100 ''x'')) = Ret (1, v1)"
      "string_at v1 (s_addr v1) = Some ''x''"
      "compile v1 (of_nat (opcode COMPILE)) ''x'' = Ret v3" "m v3 ! DIC = 103"
    by auto
  have C: "\<exists>v'. inner ((enter (prog 3 100 ''x''))\<lparr>I := 71, pc := 80\<rparr>) = Break v'
        \<and> m v' ! 103 = 2 \<and> m v' ! DIC = 104"
    using T [OF decode_ops(3), of 100 "''x''" 1 v1 "''x''" v3,
             THEN conjunct2, THEN conjunct2, THEN conjunct2, THEN conjunct1] d
      compile_size [OF d(3)] forth_get_word_size [OF d(1)]
    by (auto simp: mem same_size_def)
  have D: "\<exists>fo'. forth_run (prog 29 2048 []) = Some (Ret (- 1, fo')) \<and> m fo' ! INVALID = 1"
    using T [OF decode_ops(1), of 2048 "[]",
             THEN conjunct2, THEN conjunct2, THEN conjunct2, THEN conjunct2]
    by (simp add: mem)
  from define_x [of 2045] obtain u1 u3
    where e: "forth_get_word (put STATE 1 (at_switch 3 2045 ''x'')) = Ret (1, u1)"
      "string_at u1 (s_addr u1) = Some ''x''"
      "compile u1 (of_nat (opcode COMPILE)) ''x'' = Ret u3" "m u3 ! DIC = 2048"
    by auto
  have E: "\<exists>fo'. forth_run (prog 3 2045 ''x'') = Some (Ret (- 1, fo')) \<and> m fo' ! INVALID = 1"
    using T [OF decode_ops(3), of 2045 "''x''" 1 u1 "''x''" u3,
             THEN conjunct2, THEN conjunct2, THEN conjunct2, THEN conjunct2] e
    by (simp add: mem)
  from literal_42(5) obtain v2
    where l: "store_at_dic (put SIDX 2 (put 32 0x3234 (at_switch 5 2047 ''42''))) 2 = Some v2"
      "m v2 ! DIC = 2048"
    by auto
  have F: "\<exists>fo'. forth_run (prog 5 2047 ''42'') = Some (Ret (- 1, fo')) \<and> m fo' ! INVALID = 1"
    using T [OF decode_ops(4), of 2047 "''42''" 2 "put SIDX 2 (put 32 0x3234 (at_switch 5 2047 ''42''))" _ _ "''42''" 0 42 v2,
             THEN conjunct2, THEN conjunct2, THEN conjunct2, THEN conjunct2]
      literal_42(1-4) literal_42_find l
    by (simp add: mem)
  from A B C D E F show ?thesis by (intro conjI)
qed


text \<open>
  C3 as stated fails: with N = 2048 and stacks of 64 cells the stack base is 1920; COMMA
  with DIC = 1920 writes the cell 1920, DIC becomes 1921 and forth_run returns 0.
\<close>

lemma comma_at_base:
  "inner ((enter (prog 29 1920 []))\<lparr>I := 71, pc := 80\<rparr>)
     = Break ((put 1920 7 (put DIC 1921 (at_switch 29 1920 [])))\<lparr>sp := 1919, f := 7\<rparr>)"
  by (simp add: inner_def load_ck_def store_ck_def check_bounds_def debug_trace_def spop_def
        decode_def instruction_def INSTRUCTION_MASK_def instruction_list_def eval_prog)

lemma end_after_comma:
  "fetch ((put 1920 7 (put DIC 1921 (at_switch 29 1920 [])))\<lparr>sp := 1919, f := 7\<rparr>)
     = Goto_end ((put 1920 7 (put DIC 1921 (at_switch 29 1920 [])))\<lparr>sp := 1919, f := 7, I := 72\<rparr>)"
  by (simp add: fetch_def load_ck_def check_bounds_def debug_trace_def eval_prog)

lemma run_comma_at_base:
  "dispatch True (enter (prog 29 1920 []))
     = Some (Goto_end ((put 1920 7 (put DIC 1921 (at_switch 29 1920 [])))\<lparr>sp := 1919, f := 7, I := 72\<rparr>))"
  apply (subst dispatch.simps, simp add: prog_fetch)
  apply (subst dispatch.simps, simp add: comma_at_base)
  apply (subst dispatch.simps, simp add: end_after_comma)
  done

theorem stack_base_write_counterexample:
  "unat (core_size (prog 29 1920 [])) - 2 * unat (m (prog 29 1920 []) ! STACK_SIZE) = 1920
   \<and> m (prog 29 1920 []) ! DIC = 1920
   \<and> forth_run (prog 29 1920 [])
       = Some (Ret (0, (put TOP 7 (put 1920 7 (put DIC 1921 (prog 29 1920 []))))\<lparr>S := 1919\<rparr>))"
  by (simp add: forth_run_def run_comma_at_base leave_def) (simp add: eval_prog)

subsection \<open>Dictionary search\<close>

lemma tolower_nul: "tolower c = CHR 0x00 \<longleftrightarrow> c = CHR 0x00"
proof
  assume "tolower c = CHR 0x00"
  then show "c = CHR 0x00"
    by (auto simp: tolower_def char_of_eq_iff take_bit_nat_eq_self split: if_splits)
next
  assume "c = CHR 0x00"
  then show "tolower c = CHR 0x00" by (simp add: tolower_def)
qed

lemma istrcmp_Cons:
  "istrcmp v (ca # a) b =
     (case get_byte v b of
        None \<Rightarrow> None
      | Some cb \<Rightarrow>
          if tolower ca = tolower cb \<and> tolower ca \<noteq> CHR 0x00 \<and> cb \<noteq> CHR 0x00
          then istrcmp v a (Suc b)
          else Some (int (of_char (tolower ca)) - int (of_char (tolower cb))))"
  by (auto simp: tolower_nul split: option.splits)

lemma istrcmp_tolower:
  "map tolower s1 = map tolower s2 \<Longrightarrow> istrcmp v s1 b = istrcmp v s2 b"
proof (induction s1 arbitrary: s2 b)
  case Nil
  then show ?case by simp
next
  case (Cons c s1)
  then obtain d s2' where s2: "s2 = d # s2'" and cd: "tolower c = tolower d"
    and rest: "map tolower s1 = map tolower s2'"
    by (cases s2) auto
  from Cons.IH [OF rest] have "istrcmp v s1 (Suc b) = istrcmp v s2' (Suc b)" .
  then show ?case
    unfolding s2 istrcmp_Cons by (auto simp: cd split: option.splits)
qed

lemma find_loop_tolower:
  assumes eq: "map tolower s1 = map tolower s2"
    and r: "forth_find_loop v s1 w len = Some r"
  shows "forth_find_loop v s2 w len = Some r"
proof (rule forth_find_loop.raw_induct
    [where P = "\<lambda>v' s w len r. v' = v \<and> s = s1 \<longrightarrow> forth_find_loop v s2 w len = Some r",
     OF _ r, THEN mp], goal_cases)
  case (1 loop v' s w len r)
  show ?case
  proof (intro impI)
    assume vs: "v' = v \<and> s = s1"
    have cmp: "istrcmp v s1 b = istrcmp v s2 b" for b
      using eq by (rule istrcmp_tolower)
    from 1(2) vs 1(1) show "forth_find_loop v s2 w len = Some r"
      by (subst forth_find_loop.simps) (auto simp: cmp split: if_splits option.splits)
  qed
next
  case 2
  show ?case by simp
qed


text \<open>
  C5. Two spellings that differ only in the case of letters (the same string after
  tolower) get the same result from forth_find in every dictionary: the same MISC-cell
  offset when the name is present, and 0, undefined behaviour or no result alike.
\<close>

theorem forth_find_case_insensitive:
  assumes "map tolower s1 = map tolower s2"
  shows "forth_find v s1 = forth_find v s2"
proof -
  have "forth_find_loop v s1 w len = forth_find_loop v s2 w len" for w len
  proof (cases "forth_find_loop v s1 w len")
    case None
    show ?thesis
    proof (cases "forth_find_loop v s2 w len")
      case None
      with \<open>forth_find_loop v s1 w len = None\<close> show ?thesis by simp
    next
      case (Some r)
      from find_loop_tolower [OF assms [symmetric] Some] None show ?thesis by simp
    qed
  next
    case (Some r)
    from find_loop_tolower [OF assms Some] Some show ?thesis by simp
  qed
  then show ?thesis by (simp add: forth_find_def)
qed


lemma find_DUP: "forth_find vm_dup ''DUP'' = Some (Ret 98)"
  unfolding forth_find_def
  by (subst forth_find_loop.simps)
     (simp add: vm_dup_def vm0_def mem0_def put_def WORD_HIDDEN_def WORD_LENGTH_def
        sizeof_cell_def word_size get_byte_def cell_byte_def lane_def tolower_def char_of_eq_iff)

theorem forth_find_case_insensitive_witness:
  "map tolower ''DUP'' = map tolower ''Dup''
   \<and> forth_find vm_dup ''DUP'' = Some (Ret 98) \<and> forth_find vm_dup ''Dup'' = Some (Ret 98)"
proof -
  have h: "map tolower ''DUP'' = map tolower ''Dup''"
    by (simp add: tolower_def char_of_eq_iff)
  from forth_find_case_insensitive [OF h, of vm_dup] find_DUP h show ?thesis
    by simp
qed

subsection \<open>Word headers\<close>

lemma set_byte_below:
  "set_byte v a b = Some v' \<Longrightarrow> i < a div sizeof_cell v \<Longrightarrow> m v' ! i = m v ! i"
  by (auto simp: set_byte_def split: if_splits)

lemma write_bytes_below:
  "write_bytes v a bs = Some v' \<Longrightarrow> i < a div sizeof_cell v \<Longrightarrow> m v' ! i = m v ! i"
proof (induction bs arbitrary: v a)
  case Nil
  then show ?case by simp
next
  case (Cons b bs)
  from Cons.prems(1) obtain v1 where s: "set_byte v a b = Some v1"
    and w: "write_bytes v1 (Suc a) bs = Some v'"
    by (auto split: option.splits)
  have "a div sizeof_cell v \<le> Suc a div sizeof_cell v1"
    by (simp add: sizeof_cell_const [of v1 v] div_le_mono)
  with Cons.prems(2) have "i < Suc a div sizeof_cell v1" by simp
  from Cons.IH [OF w this] set_byte_below [OF s Cons.prems(2)] show ?case by simp
qed


lemma compile_header_cells:
  fixes v :: "('a::len, 'z) forth_scheme"
  assumes c: "compile v code name = Ret v'"
    and above: "PWD < unat (m v ! DIC)"
    and nowrap: "unat (m v ! DIC) + unat (name_cells v name) + 1 < 2 ^ LENGTH('a)"
    and cell: "0 < sizeof_cell v"
  shows "m v' ! PWD = m v ! DIC + name_cells v name
       \<and> m v' ! unat (m v ! DIC + name_cells v name) = m v ! PWD
       \<and> m v' ! unat (m v ! DIC + name_cells v name + 1)
            = push_bit WORD_LENGTH_OFFSET (name_cells v name) OR code
       \<and> m v' ! DIC = m v ! DIC + name_cells v name + 2"
proof -
  let ?h = "m v ! DIC" and ?L = "name_cells v name"
  from c obtain v1 where s1: "strcpy v (unat ?h * sizeof_cell v) name = Some v1"
    by (auto simp: compile_def split: if_splits option.splits)
  let ?v2 = "put DIC (m v1 ! DIC + ?L) v1"
  from c s1 obtain v3 where s3: "store_at_dic ?v2 (m ?v2 ! PWD) = Some v3"
    by (auto simp: compile_def Let_def split: if_splits option.splits)
  let ?v4 = "put PWD (m v3 ! DIC - 1) v3"
  from c s1 s3 have s5: "store_at_dic ?v4 (push_bit WORD_LENGTH_OFFSET ?L OR code) = Some v'"
    by (auto simp: compile_def Let_def split: if_splits option.splits)
  have "unat ?h * sizeof_cell v < length (m v) * sizeof_cell v"
    using s1 by (cases "c_str name") (auto simp: strcpy_def set_byte_def split: option.splits if_splits)
  then have hlen: "unat ?h < length (m v)"
    by simp
  have below: "m v1 ! i = m v ! i" if "i < unat ?h" for i
    using write_bytes_below [OF s1 [unfolded strcpy_def], of i] that cell by simp
  have regs: "m v1 ! DIC = ?h" "m v1 ! PWD = m v ! PWD"
    using above by (simp_all add: below)
  have len1: "length (m v1) = length (m v)"
    using write_bytes_size [OF s1 [unfolded strcpy_def]] by (simp add: same_size_def)
  have u1: "unat (?h + ?L) = unat ?h + unat ?L"
    using nowrap by (simp add: unat_add_lem [THEN iffD1])
  have u2: "unat (?h + ?L + 1) = unat ?h + unat ?L + 1"
    using nowrap u1 unat_add_lem [THEN iffD1, of "?h + ?L" 1] by simp
  from s3 have i: "unat (?h + ?L) < length (m v)" "DIC < length (m v)"
    and v3: "v3 = put (unat (?h + ?L)) (m v ! PWD) (put DIC (?h + ?L + 1) ?v2)"
    using above u1 hlen by (auto simp: store_at_dic_def Let_def regs len1 split: if_splits)
  have d3: "m v3 ! DIC = ?h + ?L + 1"
    using i above u1 by (simp add: v3 len1)
  from s5 have j: "unat (?h + ?L + 1) < length (m v)"
    and v5: "v' = put (unat (?h + ?L + 1)) (push_bit WORD_LENGTH_OFFSET ?L OR code)
                    (put DIC (?h + ?L + 2) ?v4)"
    using above u1 u2 i
    by (auto simp: store_at_dic_def Let_def d3 v3 len1 add.assoc split: if_splits)
  show ?thesis
    using i j above u1 u2 by (simp add: v5 v3 len1 d3)
qed

text \<open>
  C4, as the code has it. After compile has made a header at h = DIC (above the registers,
  and without wrap-around of the offsets) for a name of L cells, the register PWD holds
  h + L, the offset of the link cell of the new word (its MISC cell is the next one,
  h + L + 1); the link cell h + L holds the previous value of PWD, that is the offset of the
  link cell of the previous word, or 0 for the first word; the MISC cell h + L + 1 holds
  (L << 8) | code, and DIC is h + L + 2.
\<close>

theorem compile_links:
  fixes v :: "('a::len, 'z) forth_scheme"
  assumes c: "compile v code name = Ret v'"
    and above: "PWD < unat (m v ! DIC)"
    and nowrap: "unat (m v ! DIC) + unat (name_cells v name) + 1 < 2 ^ LENGTH('a)"
    and cell: "0 < sizeof_cell v"
  shows "m v' ! PWD = m v ! DIC + name_cells v name
       \<and> m v' ! unat (m v ! DIC + name_cells v name) = m v ! PWD
       \<and> m v' ! unat (m v ! DIC + name_cells v name + 1)
            = push_bit WORD_LENGTH_OFFSET (name_cells v name) OR code
       \<and> m v' ! DIC = m v ! DIC + name_cells v name + 2"
  using assms by (rule compile_header_cells)


lemmas eval_state0 = forth0_def vm0_def mem0_def put_def sizeof_cell_def word_size forth.defs
lemmas eval_compile = compile_def strcpy_def store_at_dic_def name_cells_def strlen_def c_str_def
  set_byte_def cell_set_byte_def lane_def Let_def

lemma compile_dup:
  "is_Ret (compile forth0 1 ''dup'')"
  "m (ret_val (compile forth0 1 ''dup'')) ! PWD = 101"
  "m (ret_val (compile forth0 1 ''dup'')) ! 102 = 0x101"
  "m (ret_val (compile forth0 1 ''dup'')) ! DIC = 103"
  "length (m (ret_val (compile forth0 1 ''dup''))) = 2048"
  by (simp_all add: eval_compile eval_state0)

theorem compile_links_witness:
  "compile forth0 1 ''dup'' = Ret (ret_val (compile forth0 1 ''dup''))
   \<and> PWD < unat (m forth0 ! DIC)
   \<and> unat (m forth0 ! DIC) + unat (name_cells forth0 ''dup'') + 1 < 2 ^ 64
   \<and> 0 < sizeof_cell forth0
   \<and> m (ret_val (compile forth0 1 ''dup'')) ! PWD = 101
   \<and> m (ret_val (compile forth0 1 ''dup'')) ! 101 = 0
   \<and> m (ret_val (compile forth0 1 ''dup'')) ! 102 = 0x101
   \<and> m (ret_val (compile forth0 1 ''dup'')) ! DIC = 103"
proof -
  have c: "compile forth0 1 ''dup'' = Ret (ret_val (compile forth0 1 ''dup''))"
    using compile_dup(1) by simp
  have h: "PWD < unat (m forth0 ! DIC)"
    "unat (m forth0 ! DIC) + unat (name_cells forth0 ''dup'') + 1 < 2 ^ LENGTH(64)"
    "0 < sizeof_cell forth0"
    by (simp_all add: eval_state0 name_cells_def strlen_def c_str_def Let_def)
  have v: "m forth0 ! DIC = 100" "name_cells forth0 ''dup'' = 1" "m forth0 ! PWD = 0"
    by (simp_all add: eval_state0 name_cells_def strlen_def c_str_def Let_def)
  from compile_links [OF c h] c h show ?thesis
    by (simp add: v)
qed


text \<open>
  C4 as stated fails: compiling \<open>dup\<close> at h = 100 (L = 1) leaves 101 in PWD, not the offset
  102 of the MISC cell, and the link cell 104 of a second word \<open>x\<close> holds 101, not 102.
\<close>

theorem compile_links_counterexample:
  "m forth0 ! DIC = 100 \<and> name_cells forth0 ''dup'' = 1
   \<and> is_Ret (compile forth0 1 ''dup'')
   \<and> m (ret_val (compile forth0 1 ''dup'')) ! (100 + 1 + 1) = push_bit 8 1 OR 1
   \<and> m (ret_val (compile forth0 1 ''dup'')) ! PWD = 100 + 1
   \<and> m (ret_val (compile forth0 1 ''dup'')) ! PWD \<noteq> 100 + 1 + 1
   \<and> is_Ret (compile (ret_val (compile forth0 1 ''dup'')) 1 ''x'')
   \<and> m (ret_val (compile (ret_val (compile forth0 1 ''dup'')) 1 ''x'')) ! (103 + 1) = 100 + 1
   \<and> m (ret_val (compile (ret_val (compile forth0 1 ''dup'')) 1 ''x'')) ! (103 + 1) \<noteq> 100 + 1 + 1"
  by (simp add: eval_compile eval_state0)

subsection \<open>Immediate words\<close>





lemma pc_put [simp]: "pc (put i x v) = pc v"
  by (simp add: put_def)

lemma I_put [simp]: "I (put i x v) = I v"
  by (simp add: put_def)













subsection \<open>Core files\<close>

text \<open>
  C6. forth_load_core returns the null pointer unless the first 8 bytes of the file are the
  header of the running host (magic bytes, cell width, version, byte order) and the next
  8 bytes, the core size, are there and at least MINIMUM_CORE_SIZE; so it returns null for
  a file whose cell width, version or byte-order byte differs from the host's.
\<close>

theorem load_core_checks_header:
  fixes h :: "'a::len host"
  shows "(\<not> (take 8 dump = make_header (big_endian h) (LENGTH('a) div 8)
              \<and> 16 \<le> length dump
              \<and> MINIMUM_CORE_SIZE \<le> uint64_of (big_endian h) (take 8 (drop 8 dump)))
            \<longrightarrow> forth_load_core h MINIMUM_CORE_SIZE sizeof_forth dump = Ret None)
       \<and> (length dump < 8 \<or> dump ! CELL_SIZE \<noteq> char_of (LENGTH('a) div 8)
            \<or> dump ! VERSION \<noteq> char_of CORE_VERSION
            \<or> dump ! ENDIAN \<noteq> (if big_endian h then CHR 0x00 else CHR 0x01)
            \<longrightarrow> forth_load_core h MINIMUM_CORE_SIZE sizeof_forth dump = Ret None)"
proof (intro conjI impI)
  assume a: "\<not> (take 8 dump = make_header (big_endian h) (LENGTH('a) div 8)
              \<and> 16 \<le> length dump
              \<and> MINIMUM_CORE_SIZE \<le> uint64_of (big_endian h) (take 8 (drop 8 dump)))"
  then show "forth_load_core h MINIMUM_CORE_SIZE sizeof_forth dump = Ret None"
    by (auto simp: forth_load_core_def Let_def)
next
  assume b: "length dump < 8 \<or> dump ! CELL_SIZE \<noteq> char_of (LENGTH('a) div 8)
            \<or> dump ! VERSION \<noteq> char_of CORE_VERSION
            \<or> dump ! ENDIAN \<noteq> (if big_endian h then CHR 0x00 else CHR 0x01)"
  have "take 8 dump \<noteq> make_header (big_endian h) (LENGTH('a) div 8)" if "8 \<le> length dump"
  proof
    assume e: "take 8 dump = make_header (big_endian h) (LENGTH('a) div 8)"
    have "dump ! i = take 8 dump ! i" if "i < 8" for i
      using that by simp
    then have "dump ! CELL_SIZE = make_header (big_endian h) (LENGTH('a) div 8) ! CELL_SIZE"
      "dump ! VERSION = make_header (big_endian h) (LENGTH('a) div 8) ! VERSION"
      "dump ! ENDIAN = make_header (big_endian h) (LENGTH('a) div 8) ! ENDIAN"
      unfolding e [symmetric] by simp_all
    with b \<open>8 \<le> length dump\<close> show False
      by (simp add: make_header_def header_bytes_def split: if_splits)
  qed
  then show "forth_load_core h MINIMUM_CORE_SIZE sizeof_forth dump = Ret None"
    by (cases "8 \<le> length dump") (auto simp: forth_load_core_def Let_def)
qed


lemma load_core_succeeds:
  fixes h :: "'a::len host"
  assumes hdr: "take 8 dump = make_header (big_endian h) (LENGTH('a) div 8)"
    and n: "n = uint64_of (big_endian h) (take 8 (drop 8 dump))"
    and min: "MINIMUM_CORE_SIZE \<le> n" and regs: "START_TIME < n"
    and small: "sizeof_forth + LENGTH('a) div 8 * n < 2 ^ 64"
    and cell: "0 < LENGTH('a) div 8"
    and long: "16 + LENGTH('a) div 8 * n \<le> length dump"
    and mem: "calloc h (sizeof_forth + LENGTH('a) div 8 * n) = Some addr"
    and inp: "stdin_ptr h \<noteq> 0"
  shows "\<exists>fo. forth_load_core h MINIMUM_CORE_SIZE sizeof_forth dump = Ret (Some fo)
           \<and> header fo = take 8 dump \<and> core_size fo = of_nat n \<and> length (m fo) = n"
proof -
  let ?c = "LENGTH('a) div 8"
  let ?blank = "host.extend h (forth.fields [] 0 0 (replicate n 0)) :: 'a forth"
  have l8: "length (take 8 dump) = 8" "length (take 8 (drop 8 dump)) = 8"
    using long by simp_all
  have w: "(?c * n) mod 2 ^ 64 = ?c * n" "(sizeof_forth + ?c * n) mod 2 ^ 64 = sizeof_forth + ?c * n"
    using small by simp_all
  have cells: "(sizeof_forth + ?c * n - sizeof_forth) div ?c = n"
    using cell by simp
  have len: "length (take (?c * n) (drop 16 dump)) = ?c * n"
    using long by simp
  have "0 + length (take (?c * n) (drop 16 dump)) \<le> length (m ?blank) * sizeof_cell ?blank"
    using long by (simp add: forth.defs host.defs sizeof_cell_def word_size mult.commute)
  from write_bytes_in_range [OF this] obtain fo
    where wr: "write_bytes ?blank 0 (take (?c * n) (drop 16 dump)) = Some fo" ..
  from write_bytes_size [OF wr] have size: "length (m fo) = n"
    by (simp add: same_size_def forth.defs host.defs)
  from write_bytes_memory_only [OF wr] have ptr: "stdin_ptr fo = stdin_ptr h"
    by (auto simp: forth.defs host.defs)
  show ?thesis
    using hdr [symmetric] n [symmetric] min l8 mem w cells len wr size regs inp ptr
    by (simp add: forth_load_core_def Let_def forth_make_default_def forth_set_file_input_def put_def)
qed


lemma image_bytes:
  "length (image w ver e) = 272"
  "image w ver e ! CELL_SIZE = char_of w" "image w ver e ! VERSION = char_of ver"
  "image w ver e ! ENDIAN = char_of e"
  "take 8 (image w ver e)
     = [CHR 0xFF, CHR ''4'', CHR ''T'', CHR ''H'', char_of w, char_of ver, char_of e, CHR 0xFF]"
  "uint64_of False (take 8 (drop 8 (image w ver e))) = 32"
  by (simp_all add: image_def uint64_of_def)

lemma host0_fields:
  "big_endian host0 = False" "calloc host0 k = Some 4096" "stdin_ptr host0 = 1"
  by (simp_all add: host0_def vm0_def host.defs)

theorem load_core_checks_header_witness:
  "forth_load_core host0 32 64 (image 8 3 1) = Ret None
   \<and> forth_load_core host0 32 64 (image 4 2 1) = Ret None
   \<and> forth_load_core host0 32 64 (image 8 2 0) = Ret None
   \<and> forth_load_core host0 2048 64 (image 8 2 1) = Ret None
   \<and> (\<exists>fo. forth_load_core host0 32 64 (image 8 2 1) = Ret (Some fo))"
proof -
  have A: "forth_load_core host0 32 64 (image 8 3 1) = Ret None"
    using load_core_checks_header [of "image 8 3 1" host0 32 64, THEN conjunct2]
    by (simp add: host0_fields image_bytes char_of_eq_iff)
  have B: "forth_load_core host0 32 64 (image 4 2 1) = Ret None"
    using load_core_checks_header [of "image 4 2 1" host0 32 64, THEN conjunct2]
    by (simp add: host0_fields image_bytes char_of_eq_iff)
  have C: "forth_load_core host0 32 64 (image 8 2 0) = Ret None"
    using load_core_checks_header [of "image 8 2 0" host0 32 64, THEN conjunct2]
    by (simp add: host0_fields image_bytes char_of_eq_iff)
  have D: "forth_load_core host0 2048 64 (image 8 2 1) = Ret None"
    using load_core_checks_header [of "image 8 2 1" host0 2048 64, THEN conjunct1]
    by (simp add: host0_fields image_bytes)
  have "take 8 (image 8 2 1) = make_header (big_endian host0) (LENGTH(64) div 8)"
    by (simp add: host0_fields image_bytes make_header_def header_bytes_def char_of_eq_iff)
  from load_core_succeeds [OF this, of 32 32 64 4096]
  have E: "\<exists>fo. forth_load_core host0 32 64 (image 8 2 1) = Ret (Some fo)"
    by (auto simp: host0_fields image_bytes)
  from A B C D E show ?thesis by (intro conjI)
qed

end
